theory Spec2Isabelle
  imports Main "HOL-Library.Word"
begin

section \<open>JavaScript values used by the two scripts\<close>

text \<open>
  Both scripts (\<^verbatim>\<open>arweave_latency.js\<close>, the upload test, and \<^verbatim>\<open>arweave_read.js\<close>, the
  read test) are embedded as HOL functions over an explicit environment that fixes what
  every external call (fetch, file system, SDK, random source) answers.

  A JavaScript Number is an IEEE-754 double. The scripts only ever hold integer-valued
  Numbers in the places modelled here (\<^verbatim>\<open>parseInt\<close> results and their products with
  1024), so a Number is an integer, an infinity or NaN, and every operation rounds the
  exact result to the nearest double (ties to even, 53-bit significand).
\<close>

datatype number = NaN | NegInf | Num int | PosInf

text \<open>Number of binary digits of a natural number.\<close>

fun bitlen :: "nat \<Rightarrow> nat" where
  "bitlen n = (if n = 0 then 0 else Suc (bitlen (n div 2)))"

declare bitlen.simps [simp del]

text \<open>
  Rounding of an exact non-negative integer to a double: integers below \<open>2^53\<close> are
  representable; above, the low \<open>e\<close> bits are rounded away, to nearest, ties to the even
  significand; a result of \<open>2^1024\<close> or more is infinite. \<open>None\<close> stands for infinity.
\<close>

definition round_double :: "nat \<Rightarrow> nat option" where
  "round_double n =
     (if n < 2 ^ 53 then Some n
      else let e = bitlen n - 53;
               q = n div 2 ^ e;
               r = n mod 2 ^ e;
               h = 2 ^ (e - 1);
               q' = (if h < r \<or> (r = h \<and> odd q) then q + 1 else q);
               v = q' * 2 ^ e
           in if 2 ^ 1024 \<le> v then None else Some v)"

definition to_number :: "bool \<Rightarrow> nat \<Rightarrow> number" where
  "to_number neg n =
     (case round_double n of
        None \<Rightarrow> (if neg then NegInf else PosInf)
      | Some v \<Rightarrow> Num (if neg then - int v else int v))"

text \<open>The Number product \<^verbatim>\<open>x * k\<close> for a positive integer constant \<open>k\<close>.\<close>

fun times :: "number \<Rightarrow> nat \<Rightarrow> number" where
  "times NaN k = NaN"
| "times NegInf k = NegInf"
| "times PosInf k = PosInf"
| "times (Num i) k = to_number (i < 0) (nat \<bar>i\<bar> * k)"

text \<open>\<^verbatim>\<open>x > 0\<close> and \<^verbatim>\<open>x === len\<close> for a buffer or array length \<open>len\<close>.\<close>

fun gt_zero :: "number \<Rightarrow> bool" where
  "gt_zero (Num i) = (0 < i)"
| "gt_zero PosInf = True"
| "gt_zero _ = False"

definition strict_eq_len :: "number \<Rightarrow> nat \<Rightarrow> bool" where
  "strict_eq_len x len = (x = Num (int len))"

subsection \<open>Characters and \<^verbatim>\<open>parseInt\<close>\<close>

text \<open>
  Strings are lists of characters, a character being a code unit below 256. Only ASCII
  characters can match the pattern of \<^verbatim>\<open>parseSize\<close> (the regular expression has no
  \<^verbatim>\<open>u\<close> flag, so case folding never maps a non-ASCII character onto an ASCII one), and
  only ASCII digits are digits for \<^verbatim>\<open>parseInt\<close>. The white space that \<^verbatim>\<open>parseInt\<close>
  skips is, among these code units, the characters 9 to 13, the space 32 and the no-break
  space 160 (U+00A0).
\<close>

definition is_digit :: "char \<Rightarrow> bool" where
  "is_digit c = (48 \<le> (of_char c :: nat) \<and> (of_char c :: nat) \<le> 57)"

definition digit_val :: "char \<Rightarrow> nat" where
  "digit_val c = of_char c - 48"

definition to_upper :: "char \<Rightarrow> char" where
  "to_upper c =
     (if 97 \<le> (of_char c :: nat) \<and> (of_char c :: nat) \<le> 122
      then char_of ((of_char c :: nat) - 32) else c)"

definition toUpperCase :: "string \<Rightarrow> string" where
  "toUpperCase s = map to_upper s"

definition is_space :: "char \<Rightarrow> bool" where
  "is_space c = ((of_char c :: nat) \<in> {9, 10, 11, 12, 13, 32, 160})"

text \<open>The integer written by a string of decimal digits.\<close>

definition digits_val :: "string \<Rightarrow> nat" where
  "digits_val ds = foldl (\<lambda>a c. 10 * a + digit_val c) 0 ds"

text \<open>
  \<^verbatim>\<open>parseInt(s, 10)\<close>: leading white space is skipped, one sign is read, then the longest
  run of decimal digits; no digit gives NaN; the value is rounded to a double.
\<close>

definition parseInt :: "string \<Rightarrow> number" where
  "parseInt s =
     (let t = dropWhile is_space s;
          neg = (t \<noteq> [] \<and> hd t = CHR ''-'');
          u = (if t \<noteq> [] \<and> (hd t = CHR ''-'' \<or> hd t = CHR ''+'') then tl t else t);
          z = takeWhile is_digit u
      in if z = [] then NaN else to_number neg (digits_val z))"

section \<open>The upload test: \<^verbatim>\<open>parseSize\<close>\<close>

text \<open>
  \<^verbatim>\<open>str.match(/^(\d+)([KMG]?B?)$/i)\<close>. The digits of group 1 are the longest digit prefix
  (what follows a shorter prefix would be a digit, which group 2 cannot match); group 2 is
  what remains, and it has to be read completely by an optional letter of \<^verbatim>\<open>KMG\<close>
  followed by an optional \<^verbatim>\<open>B\<close>, in either case.
\<close>

definition optional :: "(char \<Rightarrow> bool) \<Rightarrow> string \<Rightarrow> string" where
  "optional p s = (case s of [] \<Rightarrow> [] | c # cs \<Rightarrow> if p c then cs else s)"

definition is_KMG :: "char \<Rightarrow> bool" where
  "is_KMG c = (to_upper c \<in> {CHR ''K'', CHR ''M'', CHR ''G''})"

definition is_B :: "char \<Rightarrow> bool" where
  "is_B c = (to_upper c = CHR ''B'')"

definition match_size :: "string \<Rightarrow> (string \<times> string) option" where
  "match_size str =
     (let m1 = takeWhile is_digit str;
          m2 = dropWhile is_digit str
      in if m1 \<noteq> [] \<and> optional is_B (optional is_KMG m2) = []
         then Some (m1, m2) else None)"

text \<open>A thrown value: its \<^verbatim>\<open>message\<close> property, if it has one, and its \<^verbatim>\<open>String(e)\<close> text.\<close>

datatype exn = Exn (message: "string option") (text_of: string)

definition Error :: "string \<Rightarrow> exn" where
  "Error m = Exn (Some m) (''Error: '' @ m)"

definition parseSize :: "string \<Rightarrow> exn + number" where
  "parseSize str =
     (case match_size str of
        None \<Rightarrow> Inl (Error ''Invalid size, e.g. 512KB, 5MB, 1GB'')
      | Some (m1, m2) \<Rightarrow>
          (let n = parseInt m1;
               unit = toUpperCase m2
           in if unit = ''KB'' then Inr (times n 1024)
              else if unit = ''MB'' then Inr (times (times n 1024) 1024)
              else if unit = ''GB'' then Inr (times (times (times n 1024) 1024) 1024)
              else Inr n))"


text \<open>
  The table of the data model (KB = 1024, MB = 1024 * 1024, GB = 1024 * 1024 * 1024, bytes otherwise),
  written from the specification, to compare \<open>parseSize\<close> with.
\<close>

definition unit_bytes :: "string \<Rightarrow> nat" where
  "unit_bytes unit =
     (if unit = ''KB'' then 1024 else if unit = ''MB'' then 1024 * 1024
      else if unit = ''GB'' then 1024 * 1024 * 1024 else 1)"

section \<open>The process: console, files, exceptions and exit\<close>

text \<open>
  A console line is a fixed text, a text with the Numbers it formats (number formatting
  with \<^verbatim>\<open>toLocaleString\<close> and \<^verbatim>\<open>toFixed\<close> is floating point and is not modelled: a
  formatted line is determined by its template and the values it prints), or a label
  followed by a thrown value.
\<close>

datatype line = Text string | Fmt string "number list" | Err string exn

text \<open>
  The reports. Throughput fields are floating-point quotients of fields that are present
  and are left out, as is the stack trace of an error.
\<close>

record upload_report =
  timestamp :: string
  gateway :: string
  bytes :: number
  humanReadable :: string
  uploadLatencyMs :: nat
  availabilityLatencyMs :: nat
  reportAvailable :: bool
  lastStatus :: string
  downloadLatencyMs :: nat
  integrityCheck :: string
  transactionId :: string
  transactionUrl :: string

record error_report =
  errorTimestamp :: string
  errorMessage :: string

record read_report =
  readTimestamp :: string
  readTxid :: string
  expectedSizeField :: number
  tagsField :: "(string \<times> string) list"
  responseContentType :: string
  responseContentLength :: number
  actualSize :: nat
  readLatencyMs :: nat
  chunkCount :: nat
  sizeMatch :: "bool option"
  sha256Hash :: string
  looksLikeHTML :: bool

record read_error_report =
  readErrorTimestamp :: string
  readErrorTxid :: string
  readErrorMessage :: string

datatype file_content =
  UploadResults upload_report
| UploadError error_report
| ReadResults read_report
| ReadError read_error_report

record world =
  stdout :: "line list"
  stderr :: "line list"
  files :: "(string \<times> file_content) list"

definition world0 :: world where
  "world0 = \<lparr>stdout = [], stderr = [], files = []\<rparr>"

text \<open>
  A statement either completes with a value, throws, or ends the process
  (\<^verbatim>\<open>process.exit\<close> cannot be caught and nothing after it runs).
\<close>

datatype 'a result = Return 'a | Throw exn | Exit nat

type_synonym 'a proc = "world \<Rightarrow> 'a result \<times> world"

definition ret :: "'a \<Rightarrow> 'a proc" where
  "ret x = (\<lambda>w. (Return x, w))"

definition throw :: "exn \<Rightarrow> 'a proc" where
  "throw e = (\<lambda>w. (Throw e, w))"

definition process_exit :: "nat \<Rightarrow> 'a proc" where
  "process_exit c = (\<lambda>w. (Exit c, w))"

definition and_then :: "'a proc \<Rightarrow> ('a \<Rightarrow> 'b proc) \<Rightarrow> 'b proc" where
  "and_then m f =
     (\<lambda>w. case m w of
            (Return x, w') \<Rightarrow> f x w'
          | (Throw e, w') \<Rightarrow> (Throw e, w')
          | (Exit c, w') \<Rightarrow> (Exit c, w'))"

definition before :: "unit proc \<Rightarrow> 'b proc \<Rightarrow> 'b proc" where
  "before m k = and_then m (\<lambda>_. k)"

definition try_catch :: "'a proc \<Rightarrow> (exn \<Rightarrow> 'a proc) \<Rightarrow> 'a proc" where
  "try_catch m h =
     (\<lambda>w. case m w of
            (Throw e, w') \<Rightarrow> h e w'
          | (Return x, w') \<Rightarrow> (Return x, w')
          | (Exit c, w') \<Rightarrow> (Exit c, w'))"

text \<open>Awaiting an external call whose answer the environment fixes.\<close>

definition await :: "exn + 'a \<Rightarrow> 'a proc" where
  "await r = (case r of Inl e \<Rightarrow> throw e | Inr x \<Rightarrow> ret x)"

definition attempt_call :: "exn option \<Rightarrow> unit proc" where
  "attempt_call r = (case r of Some e \<Rightarrow> throw e | None \<Rightarrow> ret ())"

definition console_log :: "line \<Rightarrow> unit proc" where
  "console_log l = (\<lambda>w. (Return (), w\<lparr>stdout := stdout w @ [l]\<rparr>))"

definition console_error :: "line \<Rightarrow> unit proc" where
  "console_error l = (\<lambda>w. (Return (), w\<lparr>stderr := stderr w @ [l]\<rparr>))"

definition writeFile :: "exn option \<Rightarrow> string \<Rightarrow> file_content \<Rightarrow> unit proc" where
  "writeFile answer name content =
     (case answer of
        Some e \<Rightarrow> throw e
      | None \<Rightarrow> (\<lambda>w. (Return (), w\<lparr>files := files w @ [(name, content)]\<rparr>)))"

text \<open>
  The exit code of the process: the code given to \<^verbatim>\<open>process.exit\<close>, 0 when the script
  runs to its end, 1 when an exception escapes.
\<close>

record outcome =
  exitCode :: nat
  final :: world

definition run :: "unit proc \<Rightarrow> outcome" where
  "run m =
     (case m world0 of
        (Return _, w) \<Rightarrow> \<lparr>exitCode = 0, final = w\<rparr>
      | (Throw e, w) \<Rightarrow> \<lparr>exitCode = 1, final = w\<rparr>
      | (Exit c, w) \<Rightarrow> \<lparr>exitCode = c, final = w\<rparr>)"

text \<open>\<^verbatim>\<open>x || d\<close> for a string that may be missing: a missing or empty string is falsy.\<close>

definition or_else :: "string option \<Rightarrow> string \<Rightarrow> string" where
  "or_else x d = (case x of None \<Rightarrow> d | Some s \<Rightarrow> if s = [] then d else s)"

text \<open>Decimal text of a natural number, as a template literal prints it.\<close>

fun decimal :: "nat \<Rightarrow> string" where
  "decimal n =
     (if n < 10 then [char_of (48 + n)]
      else decimal (n div 10) @ [char_of (48 + n mod 10)])"

declare decimal.simps [simp del]

text \<open>\<^verbatim>\<open>gateway.replace(/\/$/, "")\<close>: one trailing slash is removed.\<close>

definition strip_slash :: "string \<Rightarrow> string" where
  "strip_slash g = (if g \<noteq> [] \<and> last g = CHR ''/'' then butlast g else g)"

section \<open>The upload test: waiting for the gateway\<close>

text \<open>
  A response of \<^verbatim>\<open>fetch\<close>; \<^verbatim>\<open>ok\<close> is the Fetch API's getter, true for the statuses
  200 to 299.
\<close>

record response =
  status :: nat
  reason :: string

definition ok :: "response \<Rightarrow> bool" where
  "ok r = (200 \<le> status r \<and> status r \<le> 299)"

text \<open>
  What the environment answers to one HEAD probe: the response or the thrown transport
  error, the time the request took, and by how much the timer of the following sleep
  fired late (a timer never fires early).
\<close>

record attempt =
  answer :: "exn + response"
  fetchMs :: nat
  lateMs :: nat

text \<open>
  The variables of the loop, the clock (milliseconds since \<^verbatim>\<open>tAvailStart\<close>) and two
  counters that the script does not hold: the probes issued and the sleeps taken.
\<close>

record poll_state =
  available :: bool
  statusText :: string
  waitedMs :: nat
  clockMs :: nat
  probes :: nat
  sleeps :: nat

definition maxWaitMs :: nat where
  "maxWaitMs = 10 * 60 * 1000"

definition pollIntervalMs :: nat where
  "pollIntervalMs = 2000"

definition poll_init :: poll_state where
  "poll_init = \<lparr>available = False, statusText = [], waitedMs = 0, clockMs = 0,
                 probes = 0, sleeps = 0\<rparr>"

text \<open>The \<^verbatim>\<open>try\<close>/\<^verbatim>\<open>catch\<close> of one iteration; the flag says whether \<^verbatim>\<open>break\<close> was taken.\<close>

definition probe_step :: "attempt \<Rightarrow> poll_state \<Rightarrow> poll_state \<times> bool" where
  "probe_step a s =
     (let s1 = s\<lparr>probes := probes s + 1, clockMs := clockMs s + fetchMs a\<rparr>
      in case answer a of
           Inr head \<Rightarrow>
             (let s2 = s1\<lparr>statusText := decimal (status head) @ '' '' @ reason head\<rparr>
              in if ok head then (s2\<lparr>available := True\<rparr>, True) else (s2, False))
         | Inl e \<Rightarrow> (s1\<lparr>statusText := or_else (message e) ''fetch error''\<rparr>, False))"

text \<open>\<^verbatim>\<open>await sleep(pollIntervalMs); waitedMs += pollIntervalMs\<close>.\<close>

definition sleep_step :: "attempt \<Rightarrow> poll_state \<Rightarrow> poll_state" where
  "sleep_step a s =
     s\<lparr>clockMs := clockMs s + pollIntervalMs + lateMs a,
       sleeps := sleeps s + 1,
       waitedMs := waitedMs s + pollIntervalMs\<rparr>"

function poll_loop :: "(nat \<Rightarrow> attempt) \<Rightarrow> poll_state \<Rightarrow> poll_state" where
  "poll_loop env s =
     (if waitedMs s \<le> maxWaitMs
      then (case probe_step (env (probes s)) s of
              (s', True) \<Rightarrow> s'
            | (s', False) \<Rightarrow> poll_loop env (sleep_step (env (probes s)) s'))
      else s)"
  by pat_completeness auto

termination poll_loop
proof (relation "measure (\<lambda>(env, s). maxWaitMs + pollIntervalMs - waitedMs s)", goal_cases)
  case 1
  show ?case by simp
next
  case (2 env s x y)
  have "waitedMs (fst (probe_step (env (probes s)) s)) = waitedMs s"
    by (simp add: probe_step_def Let_def split: sum.splits)
  with 2 have "waitedMs x = waitedMs s" by (metis fst_conv)
  with 2 show ?case by (simp add: sleep_step_def pollIntervalMs_def)
qed

declare poll_loop.simps [simp del]

text \<open>A probe counts as a success when it answers with an ok status.\<close>

definition succeeds :: "attempt \<Rightarrow> bool" where
  "succeeds a = (case answer a of Inr head \<Rightarrow> ok head | Inl e \<Rightarrow> False)"

section \<open>The upload test: the script\<close>

type_synonym byte = "8 word"
type_synonym buffer = "byte list"

text \<open>\<^verbatim>\<open>Buffer.equals\<close>: same length and the same byte at every position.\<close>

fun equals :: "buffer \<Rightarrow> buffer \<Rightarrow> bool" where
  "equals [] [] = True"
| "equals (x # xs) (y # ys) = (x = y \<and> equals xs ys)"
| "equals _ _ = False"

text \<open>
  \<^verbatim>\<open>crypto.randomBytes(size)\<close>: a buffer of \<open>size\<close> bytes from the random source, or a
  range error when \<open>size\<close> is not an integer from 0 to \<open>2^31 - 1\<close>.
\<close>

definition randomBytes :: "(nat \<Rightarrow> byte) \<Rightarrow> number \<Rightarrow> exn + buffer" where
  "randomBytes rnd n =
     (case n of
        Num i \<Rightarrow>
          if 0 \<le> i \<and> i \<le> 2147483647 then Inr (map rnd [0..<nat i])
          else Inl (Exn (Some ''size is out of range'') ''RangeError'')
      | _ \<Rightarrow> Inl (Exn (Some ''size is out of range'') ''RangeError''))"

text \<open>
  What the outside world answers during one run of the upload test: the command line
  (after the script name), the key file, the random source, the SDK calls, the measured
  times, the HEAD probes, the download, the clock of the reports, the file system.
\<close>

record upload_env =
  argv :: "string list"
  loadKey :: "exn option"
  entropy :: "nat \<Rightarrow> byte"
  createTransaction :: "exn option"
  sign :: "exn option"
  getUploader :: "exn option"
  uploadChunks :: "exn option list"
  txId :: string
  uploadMs :: nat
  heads :: "nat \<Rightarrow> attempt"
  download :: "exn + (response \<times> (exn + buffer))"
  downloadMs :: nat
  isoTime :: string
  dateNow :: nat
  writeResults :: "exn option"
  writeErrorReport :: "exn option"

definition arg :: "string list \<Rightarrow> nat \<Rightarrow> string option" where
  "arg xs i = (if i < length xs then Some (xs ! i) else None)"

definition falsy :: "string option \<Rightarrow> bool" where
  "falsy x = (case x of None \<Rightarrow> True | Some s \<Rightarrow> s = [])"

text \<open>\<^verbatim>\<open>while (!uploader.isComplete) await uploader.uploadChunk()\<close>, over the answers to
  the successive chunk uploads; the upload is complete when they are used up.\<close>

fun upload_all :: "exn option list \<Rightarrow> unit proc" where
  "upload_all [] = ret ()"
| "upload_all (r # rs) = before (attempt_call r) (upload_all rs)"

record prepared =
  sizeArg :: string
  gatewayUrl :: string
  sizeBytes :: number
  payload :: buffer

text \<open>Lines 26 to 59: arguments, payload, upload.\<close>

definition prepare :: "upload_env \<Rightarrow> prepared proc" where
  "prepare env =
     (let jwkPath = arg (argv env) 0;
          sizeArg0 = arg (argv env) 1;
          gatewayArg = arg (argv env) 2
      in if falsy jwkPath \<or> falsy sizeArg0
         then before
                (console_error
                   (Text ''Usage: node arweave_latency.js /path/to/key.json <size> [gateway]''))
                (process_exit 1)
         else
           (let gw = or_else gatewayArg ''https://arweave.net''
            in and_then (await (parseSize (or_else sizeArg0 []))) (\<lambda>n.
               before (attempt_call (loadKey env))
              (before (console_log (Fmt ''Generating random buffer of {} bytes...'' [n]))
              (and_then (await (randomBytes (entropy env) n)) (\<lambda>buf.
               before (console_log (Text (''Gateway: '' @ gw)))
              (before (attempt_call (createTransaction env))
              (before (attempt_call (sign env))
              (before (attempt_call (getUploader env))
              (before (upload_all (uploadChunks env))
              (before (console_log (Text (''TxID: '' @ txId env)))
              (before (console_log (Fmt ''Upload latency (to post all chunks): {} ms''
                                      [Num (int (uploadMs env))]))
              (before (console_log (Fmt ''Upload throughput: {} MB/s''
                                      [n, Num (int (uploadMs env))]))
              (ret \<lparr>sizeArg = or_else sizeArg0 [], gatewayUrl = gw, sizeBytes = n,
                     payload = buf\<rparr>))))))))))))))"

definition url_of :: "string \<Rightarrow> string \<Rightarrow> string" where
  "url_of gw txid = strip_slash gw @ ''/'' @ txid"

text \<open>Lines 62 to 82: the poll loop and its two lines of output.\<close>

definition wait_for_gateway :: "upload_env \<Rightarrow> poll_state proc" where
  "wait_for_gateway env =
     (let st = poll_loop (heads env) poll_init
      in before (console_log (Text (''Gateway availability: ''
                   @ (if available st then ''OK'' else ''NOT YET'')
                   @ '' (last status: '' @ statusText st @ '')'')))
        (before (console_log (Fmt ''Time until first 200 from gateway: {} ms''
                                [Num (int (clockMs st))]))
        (ret st)))"

text \<open>The two lines that \<open>wait_for_gateway\<close> prints, for the statements below.\<close>

definition availability_lines :: "poll_state \<Rightarrow> line list" where
  "availability_lines st =
     [Text (''Gateway availability: '' @ (if available st then ''OK'' else ''NOT YET'')
            @ '' (last status: '' @ statusText st @ '')''),
      Fmt ''Time until first 200 from gateway: {} ms'' [Num (int (clockMs st))]]"

text \<open>\<^verbatim>\<open>dlBuf.length === sizeBytes && dlBuf.equals(data)\<close> and the text reported for it.\<close>

definition same :: "buffer \<Rightarrow> number \<Rightarrow> buffer \<Rightarrow> bool" where
  "same dlBuf n buf = (strict_eq_len n (length dlBuf) \<and> equals dlBuf buf)"

definition pass_fail :: "bool \<Rightarrow> string" where
  "pass_fail b = (if b then ''PASS'' else ''FAIL'')"

text \<open>Lines 84 to 147: early exit, download, integrity check, summary, report.\<close>

definition download_and_report :: "upload_env \<Rightarrow> prepared \<Rightarrow> poll_state \<Rightarrow> unit proc" where
  "download_and_report env p st =
     (if \<not> available st
      then before
             (console_log
                (Text ''Stopping before download (content not yet served by the gateway).''))
             (process_exit 0)
      else
        and_then (await (download env)) (\<lambda>(resp, body).
          if \<not> ok resp
          then before
                 (console_error (Text (''Unexpected download status: ''
                    @ decimal (status resp) @ '' '' @ reason resp)))
                 (process_exit 1)
          else
            and_then (await body) (\<lambda>dlBuf.
              (let url = url_of (gatewayUrl p) (txId env);
                   verdict = pass_fail (same dlBuf (sizeBytes p) (payload p));
                   outputFilename = ''arweave-test-'' @ txId env @ ''.json''
               in before (console_log (Fmt ''Download latency: {} ms''
                                         [Num (int (downloadMs env))]))
                 (before (console_log (Fmt ''Download throughput: {} MB/s''
                                         [sizeBytes p, Num (int (downloadMs env))]))
                 (before (console_log (Text (''Integrity check: '' @ verdict)))
                 (before (console_log (Text ''=== Summary ===''))
                 (before (console_log (Fmt ''Upload: {} ms ({} MB/s)''
                                         [Num (int (uploadMs env)), sizeBytes p]))
                 (before (console_log (Fmt ''Gateway availability: {} ms''
                                         [Num (int (clockMs st))]))
                 (before (console_log (Fmt ''Download: {} ms ({} MB/s)''
                                         [Num (int (downloadMs env)), sizeBytes p]))
                 (before (console_log (Text (''TxID: '' @ txId env)))
                 (before (console_log (Text (''URL:  '' @ url)))
                 (before (writeFile (writeResults env) outputFilename
                            (UploadResults
                               \<lparr>timestamp = isoTime env,
                                gateway = gatewayUrl p,
                                bytes = sizeBytes p,
                                humanReadable = sizeArg p,
                                uploadLatencyMs = uploadMs env,
                                availabilityLatencyMs = clockMs st,
                                reportAvailable = available st,
                                lastStatus = statusText st,
                                downloadLatencyMs = downloadMs env,
                                integrityCheck = verdict,
                                transactionId = txId env,
                                transactionUrl = url\<rparr>))
                 (console_log (Text (''Results saved to: '' @ outputFilename))))))))))))))))"

definition upload_body :: "upload_env \<Rightarrow> unit proc" where
  "upload_body env =
     and_then (prepare env) (\<lambda>p.
     and_then (wait_for_gateway env) (\<lambda>st.
     download_and_report env p st))"

text \<open>Lines 148 to 164: the handler of the script's outer \<^verbatim>\<open>try\<close>.\<close>

definition upload_catch :: "upload_env \<Rightarrow> exn \<Rightarrow> unit proc" where
  "upload_catch env err =
     before (console_error (Err ''Error:'' err))
    (before
       (try_catch
          (let errorFilename = ''arweave-test-error-'' @ decimal (dateNow env) @ ''.json''
           in before (writeFile (writeErrorReport env) errorFilename
                        (UploadError
                           \<lparr>errorTimestamp = isoTime env,
                            errorMessage = or_else (message err) (text_of err)\<rparr>))
                     (console_error (Text (''Error details saved to: '' @ errorFilename))))
          (\<lambda>writeErr. console_error (Err ''Failed to save error to file:'' writeErr)))
       (process_exit 1))"

definition upload_main :: "upload_env \<Rightarrow> outcome" where
  "upload_main env = run (try_catch (upload_body env) (upload_catch env))"

section \<open>The read test\<close>

text \<open>
  The transaction metadata as the script reads it: \<^verbatim>\<open>data_size\<close> (its text, if the
  field is there) and, for each tag, the decoded name and value or the error thrown
  while decoding it.
\<close>

record metadata =
  data_size :: "string option"
  tagList :: "(exn + string \<times> string) list"

record meta_response =
  metaResp :: response
  metaJson :: "exn + metadata"

record head_response =
  headResp :: response
  contentLengthHeader :: "string option"
  contentTypeHeader :: "string option"

text \<open>One answer of \<^verbatim>\<open>reader.read()\<close>: the chunk, if any, and the end-of-stream flag.\<close>

record read_result =
  chunk :: "buffer option"
  readerDone :: bool

record get_response =
  getResp :: response
  reads :: "(exn + read_result) list"

record read_env =
  readArgv :: "string list"
  metaFetch :: "exn + meta_response"
  headFetch :: "exn + head_response"
  getFetch :: "exn + get_response"
  metaMs :: nat
  headMs :: nat
  readMs :: nat
  sha256 :: "buffer \<Rightarrow> string"
  readIsoTime :: string
  readDateNow :: nat
  writeReadResults :: "exn option"
  writeReadError :: "exn option"

text \<open>\<^verbatim>\<open>${x}\<close> for a string that may be missing.\<close>

definition template :: "string option \<Rightarrow> string" where
  "template x = (case x of None \<Rightarrow> ''undefined'' | Some s \<Rightarrow> s)"

text \<open>\<^verbatim>\<open>tags[name] = value\<close> on an object kept as the list of its properties.\<close>

fun assign :: "string \<Rightarrow> string \<Rightarrow> (string \<times> string) list \<Rightarrow> (string \<times> string) list" where
  "assign k v [] = [(k, v)]"
| "assign k v ((k', v') # kvs) =
     (if k = k' then (k, v) # kvs else (k', v') # assign k v kvs)"

text \<open>The \<^verbatim>\<open>forEach\<close> over the tags: it stops at the first tag whose decoding throws.\<close>

fun assign_tags ::
  "(exn + string \<times> string) list \<Rightarrow> (string \<times> string) list
     \<Rightarrow> (string \<times> string) list \<times> exn option" where
  "assign_tags [] tags = (tags, None)"
| "assign_tags (Inl e # ts) tags = (tags, Some e)"
| "assign_tags (Inr (k, v) # ts) tags = assign_tags ts (assign k v tags)"

definition content_type_line :: "string \<Rightarrow> (string \<times> string) list \<Rightarrow> unit proc" where
  "content_type_line label tags =
     (if falsy (map_of tags ''Content-Type'') then ret ()
      else console_log (Text (label @ or_else (map_of tags ''Content-Type'') [])))"

text \<open>
  Lines 31 to 69. The variables \<^verbatim>\<open>expectedSize\<close> and \<^verbatim>\<open>tags\<close> start as 0 and the empty
  object and keep what was assigned before an exception; the phase returns both.
\<close>

definition metadata_failed :: "exn \<Rightarrow> number \<Rightarrow> (string \<times> string) list
    \<Rightarrow> (number \<times> (string \<times> string) list) proc" where
  "metadata_failed err expectedSize tags =
     before (console_log (Text (''Metadata fetch failed: '' @ template (message err))))
    (before (console_log (Text []))
    (ret (expectedSize, tags)))"

definition metadata_phase :: "read_env \<Rightarrow> (number \<times> (string \<times> string) list) proc" where
  "metadata_phase env =
     before (console_log (Text ''Fetching transaction metadata...''))
       (case metaFetch env of
          Inl err \<Rightarrow> metadata_failed err (Num 0) []
        | Inr metaR \<Rightarrow>
            if ok (metaResp metaR)
            then (case metaJson metaR of
                    Inl err \<Rightarrow> metadata_failed err (Num 0) []
                  | Inr md \<Rightarrow>
                      (let expectedSize = parseInt (or_else (data_size md) ''0'')
                       in case assign_tags (tagList md) [] of
                            (tags, Some err) \<Rightarrow> metadata_failed err expectedSize tags
                          | (tags, None) \<Rightarrow>
                              before (console_log (Fmt ''Transaction metadata retrieved in {} ms''
                                                     [Num (int (metaMs env))]))
                             (before (console_log (Fmt ''Expected data size: {} bytes ({} MB)''
                                                     [expectedSize, expectedSize]))
                             (before (content_type_line ''Content-Type tag: '' tags)
                             (before (console_log (Text []))
                             (ret (expectedSize, tags)))))))
            else before (console_log (Text (''Could not fetch metadata: ''
                           @ decimal (status (metaResp metaR)) @ '' ''
                           @ reason (metaResp metaR))))
                (before (console_log (Text []))
                (ret (Num 0, []))))"

text \<open>Lines 71 to 99: the HEAD request on the raw endpoint.\<close>

definition head_phase :: "read_env \<Rightarrow> (number \<times> string) proc" where
  "head_phase env =
     before (console_log (Text ''Checking raw data availability...''))
       (case headFetch env of
          Inl err \<Rightarrow>
            before (console_error (Text (''HEAD request failed: '' @ template (message err))))
                   (process_exit 1)
        | Inr h \<Rightarrow>
            if \<not> ok (headResp h)
            then before (console_error (Text (''Transaction data not available: ''
                           @ decimal (status (headResp h)) @ '' '' @ reason (headResp h))))
                (before (console_error (Fmt ''HEAD request latency: {} ms''
                                          [Num (int (headMs env))]))
                (before (console_error (Text ''Note: The transaction may still be pending or not yet available on this gateway.''))
                (process_exit 1)))
            else
              (let contentLength = parseInt (or_else (contentLengthHeader h) ''0'');
                   contentType = or_else (contentTypeHeader h) ''unknown''
               in before (console_log (Text (''Status: '' @ decimal (status (headResp h))
                                        @ '' '' @ reason (headResp h))))
                 (before (console_log (Text (''Response Content-Type: '' @ contentType)))
                 (before (console_log (Fmt ''Response Content-Length: {} bytes''
                                         [contentLength]))
                 (before (console_log (Fmt ''HEAD request latency: {} ms''
                                         [Num (int (headMs env))]))
                 (before (console_log (Text []))
                 (ret (contentLength, contentType))))))))"

text \<open>The accumulators of the streaming download.\<close>

record dl_state =
  chunks :: "buffer list"
  chunkSizes :: "nat list"
  downloadedBytes :: nat

definition dl_init :: dl_state where
  "dl_init = \<lparr>chunks = [], chunkSizes = [], downloadedBytes = 0\<rparr>"

definition progress_line :: "nat \<Rightarrow> number \<Rightarrow> line" where
  "progress_line downloaded expectedSize =
     Fmt ''Downloaded: {} MB ({}%)'' [Num (int downloaded), expectedSize]"

text \<open>Lines 124 to 135: what is done with a chunk that was received.\<close>

definition on_chunk :: "number \<Rightarrow> buffer \<Rightarrow> dl_state \<Rightarrow> dl_state proc" where
  "on_chunk expectedSize v s =
     (let s' = s\<lparr>chunks := chunks s @ [v],
                 chunkSizes := chunkSizes s @ [length v],
                 downloadedBytes := downloadedBytes s + length v\<rparr>
      in before
           (if gt_zero expectedSize \<and> downloadedBytes s' mod (10 * 1024 * 1024) < length v
            then console_log (progress_line (downloadedBytes s') expectedSize)
            else ret ())
           (ret s'))"

text \<open>
  Lines 119 to 136: the read loop, over the successive answers of the reader. A reader
  whose answers are used up has reached the end of the stream.
\<close>

fun read_loop :: "number \<Rightarrow> (exn + read_result) list \<Rightarrow> dl_state \<Rightarrow> dl_state proc" where
  "read_loop expectedSize [] s = ret s"
| "read_loop expectedSize (Inl e # rs) s = throw e"
| "read_loop expectedSize (Inr r # rs) s =
     and_then (case chunk r of None \<Rightarrow> ret s | Some v \<Rightarrow> on_chunk expectedSize v s)
       (\<lambda>s'. if readerDone r then ret s' else read_loop expectedSize rs s')"

text \<open>\<^verbatim>\<open>haystack.includes(needle)\<close>.\<close>

definition includes_list :: "'a list \<Rightarrow> 'a list \<Rightarrow> bool" where
  "includes_list hay needle =
     list_ex (\<lambda>i. take (length needle) (drop i hay) = needle) [0..<Suc (length hay)]"

definition bytes_of :: "string \<Rightarrow> buffer" where
  "bytes_of s = map (\<lambda>c. of_nat (of_char c)) s"

definition looks_like_html :: "buffer \<Rightarrow> bool" where
  "looks_like_html buf =
     (let first1000 = take 1000 buf
      in includes_list first1000 (bytes_of ''<!DOCTYPE'')
         \<or> includes_list first1000 (bytes_of ''<html''))"

definition size_pass_line :: "number \<Rightarrow> line" where
  "size_pass_line expectedSize =
     Fmt ''Size verification: PASS (matches expected {} bytes)'' [expectedSize]"

definition size_fail_line :: "number \<Rightarrow> nat \<Rightarrow> line" where
  "size_fail_line expectedSize actual =
     Fmt ''Size verification: FAIL (expected {}, got {} bytes)''
       [expectedSize, Num (int actual)]"

text \<open>Lines 107 to 227: the body of the download \<^verbatim>\<open>try\<close>.\<close>

definition download_body ::
  "read_env \<Rightarrow> string \<Rightarrow> string \<Rightarrow> number \<Rightarrow> (string \<times> string) list \<Rightarrow> number
     \<Rightarrow> string \<Rightarrow> unit proc" where
  "download_body env txid gw expectedSize tags contentLength contentType =
     and_then (await (getFetch env)) (\<lambda>resp.
       if \<not> ok (getResp resp)
       then before (console_error (Text (''Download failed: ''
                      @ decimal (status (getResp resp)) @ '' '' @ reason (getResp resp))))
                   (process_exit 1)
       else
         and_then (read_loop expectedSize (reads resp) dl_init) (\<lambda>s.
          before (if gt_zero expectedSize then console_log (Text []) else ret ())
            (let buf = concat (chunks s);
                 actual = length buf;
                 hash = sha256 env buf;
                 outputFilename = ''arweave-read-'' @ txid @ ''-''
                                  @ decimal (readDateNow env) @ ''.json''
             in before (console_log (Text ''Download complete!''))
               (before (console_log (Fmt ''Downloaded size: {} bytes'' [Num (int actual)]))
               (before (console_log (Fmt ''Number of chunks received: {}''
                                       [Num (int (length (chunks s)))]))
               (before (console_log (Fmt ''Average chunk size: {} KB''
                                       [Num (int actual), Num (int (length (chunks s)))]))
               (before (console_log (Fmt ''Download latency: {} ms''
                                       [Num (int (readMs env))]))
               (before (console_log (Fmt ''Download throughput: {} MB/s''
                                       [Num (int actual), Num (int (readMs env))]))
               (before (console_log (Text (''SHA-256 hash: '' @ hash)))
               (before (if gt_zero expectedSize
                        then (if strict_eq_len expectedSize actual
                              then console_log (size_pass_line expectedSize)
                              else console_log (size_fail_line expectedSize actual))
                        else ret ())
               (before (if looks_like_html buf
                        then before (console_log (Text ''WARNING: Downloaded content appears to be HTML, not raw data!''))
                                    (console_log (Text ''This might indicate the raw endpoint is not working correctly.''))
                        else ret ())
               (before (console_log (Text ''=== Summary ===''))
               (before (console_log (Text (''Transaction ID: '' @ txid)))
               (before (console_log (Fmt ''File size: {} bytes ({} MB)''
                                       [Num (int actual), Num (int actual)]))
               (before (content_type_line ''Content-Type (from tags): '' tags)
               (before (console_log (Text (''Response Content-Type: '' @ contentType)))
               (before (console_log (Fmt ''Download latency: {} ms''
                                       [Num (int (readMs env))]))
               (before (console_log (Fmt ''Download throughput: {} MB/s''
                                       [Num (int actual), Num (int (readMs env))]))
               (before (console_log (Text (''Data hash (SHA-256): '' @ take 16 hash @ ''...'')))
               (before (console_log (Text (''Gateway: '' @ gw)))
               (before (console_log (Text (''Raw URL: '' @ strip_slash gw @ ''/raw/'' @ txid)))
               (before (writeFile (writeReadResults env) outputFilename
                          (ReadResults
                             \<lparr>readTimestamp = readIsoTime env,
                              readTxid = txid,
                              expectedSizeField = expectedSize,
                              tagsField = tags,
                              responseContentType = contentType,
                              responseContentLength = contentLength,
                              actualSize = actual,
                              readLatencyMs = readMs env,
                              chunkCount = length (chunks s),
                              sizeMatch = (if gt_zero expectedSize
                                           then Some (strict_eq_len expectedSize actual)
                                           else None),
                              sha256Hash = hash,
                              looksLikeHTML = looks_like_html buf\<rparr>))
               (console_log (Text (''Results saved to: '' @ outputFilename)))))))))))))))))))))))))"

text \<open>Lines 229 to 250: the handler of the download \<^verbatim>\<open>try\<close>.\<close>

definition download_catch :: "read_env \<Rightarrow> string \<Rightarrow> exn \<Rightarrow> unit proc" where
  "download_catch env txid err =
     before (console_error (Text (''Download error: '' @ template (message err))))
       (let errorFilename = ''arweave-read-error-'' @ txid @ ''-''
                            @ decimal (readDateNow env) @ ''.json''
        in before (writeFile (writeReadError env) errorFilename
                     (ReadError
                        \<lparr>readErrorTimestamp = readIsoTime env,
                         readErrorTxid = txid,
                         readErrorMessage = or_else (message err) (text_of err)\<rparr>))
          (before (console_error (Text (''Error details saved to: '' @ errorFilename)))
          (process_exit 1)))"

text \<open>
  Lines 13 to 106: everything before the download \<^verbatim>\<open>try\<close>; what it leaves in the
  variables that the download uses.
\<close>

record read_ctx =
  ctxTxid :: string
  ctxGateway :: string
  ctxExpectedSize :: number
  ctxTags :: "(string \<times> string) list"
  ctxContentLength :: number
  ctxContentType :: string

definition read_prelude :: "read_env \<Rightarrow> read_ctx proc" where
  "read_prelude env =
     (if falsy (arg (readArgv env) 0)
      then before (console_error (Text ''Usage: node arweave_read.js <txid> [gateway]''))
          (before (console_error (Text ''Example: node arweave_read.js Ab1Rul2b5FJvjOwD11XW5BgVSTvNvtwSQqZqYjYzNwU''))
          (process_exit 1))
      else
        (let txid = or_else (arg (readArgv env) 0) [];
             gw = or_else (arg (readArgv env) 1) ''https://arweave.net'';
             rawUrl = strip_slash gw @ ''/raw/'' @ txid;
             txUrl = strip_slash gw @ ''/'' @ txid
         in before (console_log (Text (''Reading transaction: '' @ txid)))
           (before (console_log (Text (''Gateway: '' @ gw)))
           (before (console_log (Text (''Raw data URL: '' @ rawUrl)))
           (before (console_log (Text (''Transaction URL: '' @ txUrl)))
           (before (console_log (Text []))
           (and_then (metadata_phase env) (\<lambda>(expectedSize, tags).
            and_then (head_phase env) (\<lambda>(contentLength, contentType).
            before (console_log (Text ''Downloading raw data blob...''))
              (ret \<lparr>ctxTxid = txid, ctxGateway = gw, ctxExpectedSize = expectedSize,
                     ctxTags = tags, ctxContentLength = contentLength,
                     ctxContentType = contentType\<rparr>))))))))))"

definition read_body :: "read_env \<Rightarrow> unit proc" where
  "read_body env =
     and_then (read_prelude env) (\<lambda>c.
       try_catch
         (download_body env (ctxTxid c) (ctxGateway c) (ctxExpectedSize c) (ctxTags c)
            (ctxContentLength c) (ctxContentType c))
         (download_catch env (ctxTxid c)))"

text \<open>Lines 252 to 255: the handler of the script's outer \<^verbatim>\<open>try\<close>.\<close>

definition read_catch :: "exn \<Rightarrow> unit proc" where
  "read_catch err = before (console_error (Err ''Fatal error:'' err)) (process_exit 1)"

definition read_main :: "read_env \<Rightarrow> outcome" where
  "read_main env = run (try_catch (read_body env) read_catch)"

section \<open>Auxiliary notions for the statements\<close>

text \<open>
  A reader that behaves as the Streams standard says: it hands out the chunks \<open>vs\<close> one
  by one, not done, and then reports the end of the stream without a chunk.
\<close>

definition stream_of :: "buffer list \<Rightarrow> (exn + read_result) list" where
  "stream_of vs =
     map (\<lambda>v. Inr \<lparr>chunk = Some v, readerDone = False\<rparr>) vs
     @ [Inr \<lparr>chunk = None, readerDone = True\<rparr>]"

text \<open>The bytes downloaded once chunk number \<open>k\<close> (from 0) has been received.\<close>

definition downloaded_after :: "buffer list \<Rightarrow> nat \<Rightarrow> nat" where
  "downloaded_after vs k = sum_list (map length (take (Suc k) vs))"

text \<open>
  The value of \<^verbatim>\<open>expectedSize\<close> after the metadata phase (lines 34 to 43): the parsed
  \<^verbatim>\<open>data_size\<close> when the metadata was fetched with an ok status and parsed, else the
  initial 0.
\<close>

definition declared_size :: "read_env \<Rightarrow> number" where
  "declared_size env =
     (case metaFetch env of
        Inl err \<Rightarrow> Num 0
      | Inr metaR \<Rightarrow>
          if ok (metaResp metaR)
          then (case metaJson metaR of
                  Inl err \<Rightarrow> Num 0
                | Inr md \<Rightarrow> parseInt (or_else (data_size md) ''0''))
          else Num 0)"

text \<open>The two size-verification lines (PASS and FAIL) among the console lines.\<close>

fun is_size_verification :: "line \<Rightarrow> bool" where
  "is_size_verification (Fmt t vs) =
     (t = ''Size verification: PASS (matches expected {} bytes)''
      \<or> t = ''Size verification: FAIL (expected {}, got {} bytes)'')"
| "is_size_verification _ = False"

text \<open>The \<open>sizeMatch\<close> fields of the read reports among the files written.\<close>

fun size_matches :: "(string \<times> file_content) list \<Rightarrow> bool option list" where
  "size_matches [] = []"
| "size_matches ((name, ReadResults rep) # fs) = sizeMatch rep # size_matches fs"
| "size_matches (f # fs) = size_matches fs"

subsection \<open>Example runs\<close>

text \<open>
  An upload of two bytes that the gateway serves at the first probe and returns
  unchanged.
\<close>

definition demo_upload :: upload_env where
  "demo_upload =
     \<lparr>argv = [''key.json'', ''2B''],
      loadKey = None,
      entropy = (\<lambda>i. of_nat i + 7),
      createTransaction = None,
      sign = None,
      getUploader = None,
      uploadChunks = [None],
      txId = ''tx1'',
      uploadMs = 10,
      heads = (\<lambda>i. \<lparr>answer = Inr \<lparr>status = 200, reason = ''OK''\<rparr>, fetchMs = 40,
                      lateMs = 0\<rparr>),
      download = Inr (\<lparr>status = 200, reason = ''OK''\<rparr>, Inr [7, 8]),
      downloadMs = 20,
      isoTime = ''2025-01-01T00:00:00.000Z'',
      dateNow = 42,
      writeResults = None,
      writeErrorReport = None\<rparr>"

text \<open>A read of a three-byte transaction; the variants below change single answers.\<close>

definition demo_read :: read_env where
  "demo_read =
     \<lparr>readArgv = [''tx1''],
      metaFetch = Inr \<lparr>metaResp = \<lparr>status = 200, reason = ''OK''\<rparr>,
                      metaJson = Inr \<lparr>data_size = Some ''3'', tagList = []\<rparr>\<rparr>,
      headFetch = Inr \<lparr>headResp = \<lparr>status = 200, reason = ''OK''\<rparr>,
                      contentLengthHeader = Some ''3'',
                      contentTypeHeader = None\<rparr>,
      getFetch = Inr \<lparr>getResp = \<lparr>status = 200, reason = ''OK''\<rparr>,
                     reads = stream_of [[1, 2, 3]]\<rparr>,
      metaMs = 5,
      headMs = 6,
      readMs = 7,
      sha256 = (\<lambda>buf. ''digest''),
      readIsoTime = ''2025-01-01T00:00:00.000Z'',
      readDateNow = 42,
      writeReadResults = None,
      writeReadError = None\<rparr>"

section \<open>Properties of \<open>parseSize\<close>\<close>

subsection \<open>Rounding to a double\<close>

lemma bitlen_upper: "n < 2 ^ bitlen n"
proof (induction n rule: bitlen.induct)
  case (1 n)
  show ?case
  proof (cases "n = 0")
    case True
    then show ?thesis by (simp add: bitlen.simps)
  next
    case False
    with 1 have "n div 2 < 2 ^ bitlen (n div 2)" by simp
    then have "n < 2 * 2 ^ bitlen (n div 2)" by linarith
    with False show ?thesis by (simp add: bitlen.simps [of n])
  qed
qed

lemma bitlen_lower: "0 < n \<Longrightarrow> 2 ^ (bitlen n - 1) \<le> n"
proof (induction n rule: bitlen.induct)
  case (1 n)
  show ?case
  proof (cases "n div 2 = 0")
    case True
    with 1 have "n = 1" by linarith
    then show ?thesis by (simp add: bitlen.simps)
  next
    case False
    with 1 have ih: "2 ^ (bitlen (n div 2) - 1) \<le> n div 2" by simp
    from False have "bitlen (n div 2) \<noteq> 0" by (simp add: bitlen.simps [of "n div 2"])
    then have "bitlen n - 1 = Suc (bitlen (n div 2) - 1)"
      using 1 by (simp add: bitlen.simps [of n])
    with ih show ?thesis by simp
  qed
qed

text \<open>An integer whose rounded-away bits are all zero is its own rounding.\<close>

lemma round_double_dvd:
  assumes "2 ^ (bitlen n - 53) dvd n" and "n < 2 ^ 1024"
  shows "round_double n = Some n"
proof (cases "n < 2 ^ 53")
  case True
  then show ?thesis by (simp add: round_double_def)
next
  case False
  from assms(1) have r: "n mod 2 ^ (bitlen n - 53) = 0" by (simp add: mod_eq_0_iff_dvd)
  from assms(1) have q: "n div 2 ^ (bitlen n - 53) * 2 ^ (bitlen n - 53) = n" by simp
  show ?thesis using False assms(2)
    by (simp add: round_double_def Let_def r q)
qed

lemma round_double_scaled:
  assumes "m \<le> 2 ^ 53" and "k \<le> 30"
  shows "round_double (m * 2 ^ k) = Some (m * 2 ^ k)"
proof (rule round_double_dvd)
  let ?n = "m * 2 ^ k"
  have le: "?n \<le> 2 ^ (53 + k)" using assms(1) by (simp add: power_add)
  show "2 ^ (bitlen ?n - 53) dvd ?n"
  proof (cases "m < 2 ^ 53")
    case True
    then have less: "?n < 2 ^ (53 + k)" by (simp add: power_add)
    have "bitlen ?n \<le> 53 + k"
    proof (rule ccontr)
      assume big: "\<not> bitlen ?n \<le> 53 + k"
      then have "53 + k \<le> bitlen ?n - 1" by simp
      then have "(2::nat) ^ (53 + k) \<le> 2 ^ (bitlen ?n - 1)" by (rule power_increasing) simp
      moreover have "0 < ?n" using big by (cases "?n = 0") (simp_all add: bitlen.simps)
      ultimately show False using bitlen_lower [of ?n] less by linarith
    qed
    then have "bitlen ?n - 53 \<le> k" by simp
    then have "(2::nat) ^ (bitlen ?n - 53) dvd 2 ^ k" by (rule le_imp_power_dvd)
    then show ?thesis by (rule dvd_mult)
  next
    case False
    with assms(1) have m: "m = 2 ^ 53" by simp
    then have n: "?n = 2 ^ (53 + k)" by (simp add: power_add)
    have "0 < ?n" using m by simp
    then have "2 ^ (bitlen ?n - 1) \<le> ?n" by (rule bitlen_lower)
    then have "(2::nat) ^ (bitlen ?n - 1) \<le> 2 ^ (53 + k)" using n by simp
    then have "bitlen ?n - 1 \<le> 53 + k" by simp
    then have "bitlen ?n - 53 \<le> 53 + k" by simp
    then have "(2::nat) ^ (bitlen ?n - 53) dvd 2 ^ (53 + k)" by (rule le_imp_power_dvd)
    then show ?thesis using n by simp
  qed
  have "(2::nat) ^ (53 + k) \<le> 2 ^ 83" using assms(2) by (intro power_increasing) simp_all
  also have "\<dots> < (2::nat) ^ 1024" by simp
  finally show "?n < 2 ^ 1024" using le by linarith
qed

lemma times_1024:
  assumes "m \<le> 2 ^ 53" and "k \<le> 20"
  shows "times (Num (int (m * 2 ^ k))) 1024 = Num (int (m * 2 ^ (k + 10)))"
proof -
  have "round_double (m * 2 ^ (k + 10)) = Some (m * 2 ^ (k + 10))"
    using assms by (intro round_double_scaled) simp_all
  moreover have "nat \<bar>int (m * 2 ^ k)\<bar> * 1024 = m * 2 ^ (k + 10)"
    by (simp only: abs_of_nat nat_int) (simp add: power_add)
  moreover have "\<not> int (m * 2 ^ k) < 0"
    by (simp only: of_nat_less_0_iff not_False_eq_True)
  ultimately show ?thesis by (simp only: times.simps to_number_def option.case if_False)
qed

subsection \<open>Characters\<close>

lemma is_digit_to_upper: "is_digit c \<Longrightarrow> to_upper c = c"
  by (simp add: is_digit_def to_upper_def)

lemma is_digit_plain:
  "is_digit c \<Longrightarrow> \<not> is_space c \<and> c \<noteq> CHR ''-'' \<and> c \<noteq> CHR ''+''"
  by (auto simp: is_digit_def is_space_def)

lemma letter_no_digit:
  "to_upper c \<in> {CHR ''K'', CHR ''M'', CHR ''G'', CHR ''B''} \<Longrightarrow> \<not> is_digit c"
proof
  assume u: "to_upper c \<in> {CHR ''K'', CHR ''M'', CHR ''G'', CHR ''B''}" and d: "is_digit c"
  from d have "to_upper c = c" by (rule is_digit_to_upper)
  with u have "c \<in> {CHR ''K'', CHR ''M'', CHR ''G'', CHR ''B''}" by simp
  with d show False by (auto simp: is_digit_def)
qed

lemma parseInt_digits:
  assumes "ds \<noteq> []" and "\<forall>c \<in> set ds. is_digit c" and "digits_val ds \<le> 2 ^ 53"
  shows "parseInt ds = Num (int (digits_val ds))"
proof -
  from assms(1) obtain c cs where ds: "ds = c # cs" by (cases ds) auto
  with assms(2) have c: "is_digit c" by simp
  then have plain: "\<not> is_space c" "c \<noteq> CHR ''-''" "c \<noteq> CHR ''+''"
    using is_digit_plain by blast+
  have tw: "takeWhile is_digit ds = ds" using assms(2) by (simp add: takeWhile_eq_all_conv)
  have rd: "round_double (digits_val ds) = Some (digits_val ds)"
    using round_double_scaled [OF assms(3), of 0] by simp
  have "parseInt (c # cs) = to_number False (digits_val (c # cs))"
    using plain tw assms(1) unfolding ds parseInt_def Let_def by simp
  then show ?thesis using rd by (simp add: ds to_number_def)
qed

lemma unit_shapes:
  assumes "toUpperCase u \<in> {'''', ''B'', ''KB'', ''MB'', ''GB''}"
  shows "optional is_B (optional is_KMG u) = [] \<and> takeWhile is_digit u = []
         \<and> dropWhile is_digit u = u"
proof -
  consider "u = []" | c where "u = [c]" "to_upper c = CHR ''B''"
    | c d where "u = [c, d]" "to_upper c \<in> {CHR ''K'', CHR ''M'', CHR ''G''}"
        "to_upper d = CHR ''B''"
    using assms by (auto simp: toUpperCase_def)
  then show ?thesis
  proof cases
    case 1
    then show ?thesis by (simp add: optional_def)
  next
    case 2
    then have "\<not> is_digit c" by (intro letter_no_digit) simp
    with 2 show ?thesis by (simp add: optional_def is_KMG_def is_B_def)
  next
    case 3
    then have "\<not> is_digit c" by (intro letter_no_digit) auto
    with 3 show ?thesis by (auto simp: optional_def is_KMG_def is_B_def)
  qed
qed

subsection \<open>Valid tokens\<close>

text \<open>
  Claim C5, as amended. A valid token is a non-empty string of decimal digits followed by
  one of the units "", "B", "KB", "MB", "GB" in any mix of upper and lower case. When the
  integer written by the digits is at most \<open>2^53 = 9007199254740992\<close>, \<open>parseSize\<close>
  returns exactly that integer times the unit's binary multiplier (1024 for KB,
  1024 * 1024 for MB, 1024 * 1024 * 1024 for GB, 1 for a bare integer or a lone B).
  Beyond \<open>2^53\<close> the result is the nearest double, which need not be the exact count.
\<close>

theorem parseSize_valid_token:
  assumes "ds \<noteq> []" and "\<forall>c \<in> set ds. is_digit c"
    and "toUpperCase u \<in> {'''', ''B'', ''KB'', ''MB'', ''GB''}"
    and "digits_val ds \<le> 2 ^ 53"
  shows "parseSize (ds @ u) = Inr (Num (int (digits_val ds * unit_bytes (toUpperCase u))))"
proof -
  from unit_shapes [OF assms(3)] assms(1,2)
  have m: "match_size (ds @ u) = Some (ds, u)"
    by (simp add: match_size_def takeWhile_append2 dropWhile_append2)
  have n: "parseInt ds = Num (int (digits_val ds))"
    using assms(1,2,4) by (rule parseInt_digits)
  have k1: "times (Num (int (digits_val ds))) 1024 = Num (int (digits_val ds * 2 ^ 10))"
    using times_1024 [OF assms(4), of 0] by simp
  have k2: "times (Num (int (digits_val ds * 2 ^ 10))) 1024
            = Num (int (digits_val ds * 2 ^ 20))"
    using times_1024 [OF assms(4), of 10] by simp
  have k3: "times (Num (int (digits_val ds * 2 ^ 20))) 1024
            = Num (int (digits_val ds * 2 ^ 30))"
    using times_1024 [OF assms(4), of 20] by simp
  show ?thesis
    unfolding parseSize_def m n Let_def option.case prod.case k1 k2 k3 unit_bytes_def
    by simp
qed

text \<open>The theorem at the token "10KB": 10240 bytes.\<close>

theorem parseSize_valid_token_witness:
  "parseSize ''10KB'' = Inr (Num 10240)"
proof -
  have d: "\<forall>c \<in> set ''10''. is_digit c" by (simp add: is_digit_def)
  have u: "toUpperCase ''KB'' = ''KB''" by (simp add: toUpperCase_def to_upper_def)
  have v: "digits_val ''10'' = 10" by (simp add: digits_val_def digit_val_def)
  have b: "unit_bytes ''KB'' = 1024" by (simp add: unit_bytes_def)
  show ?thesis
    using parseSize_valid_token [of "''10''" "''KB''"] d unfolding u v b by simp
qed

text \<open>
  Claim C5 as stated ("for every valid size token the exact byte count") fails at the
  valid token "9007199254740993" (\<open>2^53 + 1\<close>): the bare integer is returned as
  9007199254740992.
\<close>

lemma bitlen_2_53_1: "bitlen 9007199254740993 = 54"
  by (simp add: bitlen.simps)

lemma round_2_53_1: "round_double 9007199254740993 = Some 9007199254740992"
  by (simp add: round_double_def bitlen_2_53_1)

theorem parseSize_not_exact_counterexample:
  "parseSize ''9007199254740993'' = Inr (Num 9007199254740992) \<and>
   parseSize ''9007199254740993'' \<noteq> Inr (Num 9007199254740993)"
proof -
  have m: "match_size ''9007199254740993'' = Some (''9007199254740993'', [])"
    by (simp add: match_size_def is_digit_def optional_def)
  have v: "digits_val ''9007199254740993'' = 9007199254740993"
    by (simp add: digits_val_def digit_val_def)
  have "parseInt ''9007199254740993'' = to_number False (digits_val ''9007199254740993'')"
    by (simp add: parseInt_def is_space_def is_digit_def)
  then have n: "parseInt ''9007199254740993'' = Num 9007199254740992"
    by (simp add: v to_number_def round_2_53_1)
  show ?thesis by (simp add: parseSize_def m n toUpperCase_def)
qed

text \<open>The other tokens named by the claim.\<close>

lemma parseSize_examples:
  "parseSize ''1MB'' = Inr (Num 1048576)"
  "parseSize ''1GB'' = Inr (Num 1073741824)"
  "parseSize ''500'' = Inr (Num 500)"
  "parseSize ''500B'' = Inr (Num 500)"
  "parseSize ''10kb'' = Inr (Num 10240)"
  by (simp_all add: parseSize_def match_size_def is_digit_def optional_def is_KMG_def
      is_B_def to_upper_def toUpperCase_def parseInt_def is_space_def digits_val_def
      digit_val_def to_number_def round_double_def char_of_def bit_Suc_0_iff)

subsection \<open>Malformed tokens\<close>

text \<open>
  Claim C6 says that a token whose unit is not one of "", "B", "KB", "MB", "GB" fails,
  "5M" included. The pattern lets a lone K, M or G through, no branch of the unit dispatch
  handles it, and the token falls to the final \<^verbatim>\<open>return n\<close>: "5M" is read as 5 bytes.
\<close>

theorem parseSize_lone_letter_accepted:
  "parseSize ''5M'' = Inr (Num 5)"
  by (simp add: parseSize_def match_size_def is_digit_def optional_def is_KMG_def
      is_B_def to_upper_def toUpperCase_def parseInt_def is_space_def digits_val_def
      digit_val_def to_number_def round_double_def)

text \<open>The tokens that the pattern rejects do fail, with the format error.\<close>

lemma parseSize_rejects:
  "parseSize ''5XB'' = Inl (Error ''Invalid size, e.g. 512KB, 5MB, 1GB'')"
  "parseSize ''MB5'' = Inl (Error ''Invalid size, e.g. 512KB, 5MB, 1GB'')"
  "parseSize '''' = Inl (Error ''Invalid size, e.g. 512KB, 5MB, 1GB'')"
  by (simp_all add: parseSize_def match_size_def is_digit_def optional_def is_KMG_def
      is_B_def to_upper_def)

lemma parseSize_fails_iff: "(\<exists>e. parseSize str = Inl e) \<longleftrightarrow> match_size str = None"
  by (auto simp: parseSize_def Let_def split: option.splits)

section \<open>Properties of the availability poller\<close>

lemma probe_step_failure:
  assumes "\<not> succeeds a"
  shows "snd (probe_step a s) = False"
    and "available (fst (probe_step a s)) = available s"
    and "waitedMs (fst (probe_step a s)) = waitedMs s"
    and "probes (fst (probe_step a s)) = probes s + 1"
    and "sleeps (fst (probe_step a s)) = sleeps s"
    and "clockMs (fst (probe_step a s)) = clockMs s + fetchMs a"
  using assms by (auto simp: probe_step_def succeeds_def Let_def split: sum.splits)

lemma probe_step_success:
  assumes "succeeds a"
  shows "snd (probe_step a s) = True"
    and "available (fst (probe_step a s))"
    and "waitedMs (fst (probe_step a s)) = waitedMs s"
    and "probes (fst (probe_step a s)) = probes s + 1"
    and "sleeps (fst (probe_step a s)) = sleeps s"
    and "clockMs (fst (probe_step a s)) = clockMs s + fetchMs a"
  using assms by (auto simp: probe_step_def succeeds_def Let_def split: sum.splits)

lemma poll_loop_timeout: "\<not> waitedMs s \<le> maxWaitMs \<Longrightarrow> poll_loop env s = s"
  by (simp add: poll_loop.simps)

lemma poll_loop_break:
  assumes "waitedMs s \<le> maxWaitMs" and "succeeds (env (probes s))"
  shows "poll_loop env s = fst (probe_step (env (probes s)) s)"
proof -
  obtain s' b where p: "probe_step (env (probes s)) s = (s', b)" by (cases "probe_step (env (probes s)) s")
  with probe_step_success(1) [OF assms(2), of s] have "b = True" by simp
  with p assms(1) show ?thesis by (simp add: poll_loop.simps [of env s])
qed

lemma poll_loop_continue:
  assumes "waitedMs s \<le> maxWaitMs" and "\<not> succeeds (env (probes s))"
  shows "poll_loop env s
         = poll_loop env (sleep_step (env (probes s)) (fst (probe_step (env (probes s)) s)))"
proof -
  obtain s' b where p: "probe_step (env (probes s)) s = (s', b)" by (cases "probe_step (env (probes s)) s")
  with probe_step_failure(1) [OF assms(2), of s] have "b = False" by simp
  with p assms(1) show ?thesis by (simp add: poll_loop.simps [of env s])
qed

text \<open>
  \<open>k\<close> failing probes in a row, all within the maximum wait: the loop goes on from a
  state that has probed and slept \<open>k\<close> more times.
\<close>

lemma poll_loop_failures:
  assumes "\<forall>i<k. \<not> succeeds (env (probes s + i))"
    and "waitedMs s + k * pollIntervalMs \<le> maxWaitMs + pollIntervalMs"
  shows "\<exists>s'. poll_loop env s = poll_loop env s' \<and> available s' = available s
           \<and> probes s' = probes s + k \<and> sleeps s' = sleeps s + k
           \<and> waitedMs s' = waitedMs s + k * pollIntervalMs
           \<and> clockMs s + k * pollIntervalMs \<le> clockMs s'"
  using assms
proof (induction k arbitrary: s)
  case 0
  show ?case by (intro exI [of _ s]) simp
next
  case (Suc k)
  let ?a = "env (probes s)"
  let ?s1 = "sleep_step ?a (fst (probe_step ?a s))"
  from Suc.prems(1) have fail: "\<not> succeeds ?a" by (metis add.right_neutral zero_less_Suc)
  from Suc.prems(2) have now: "waitedMs s \<le> maxWaitMs" by simp
  have step: "poll_loop env s = poll_loop env ?s1" using now fail by (rule poll_loop_continue)
  have s1: "available ?s1 = available s" "probes ?s1 = probes s + 1"
    "sleeps ?s1 = sleeps s + 1" "waitedMs ?s1 = waitedMs s + pollIntervalMs"
    "clockMs s + pollIntervalMs \<le> clockMs ?s1"
    using probe_step_failure [OF fail, of s] by (simp_all add: sleep_step_def)
  have "\<forall>i<k. \<not> succeeds (env (probes ?s1 + i))"
  proof (intro allI impI)
    fix i assume "i < k"
    then have "Suc i < Suc k" by simp
    with Suc.prems(1) have "\<not> succeeds (env (probes s + Suc i))" by blast
    then show "\<not> succeeds (env (probes ?s1 + i))" by (simp add: s1(2) add.commute)
  qed
  moreover have "waitedMs ?s1 + k * pollIntervalMs \<le> maxWaitMs + pollIntervalMs"
    using Suc.prems(2) by (simp add: s1(4))
  ultimately obtain s' where s': "poll_loop env ?s1 = poll_loop env s'"
    "available s' = available ?s1" "probes s' = probes ?s1 + k" "sleeps s' = sleeps ?s1 + k"
    "waitedMs s' = waitedMs ?s1 + k * pollIntervalMs"
    "clockMs ?s1 + k * pollIntervalMs \<le> clockMs s'"
    using Suc.IH [of ?s1] by blast
  show ?case
  proof (intro exI [of _ s'] conjI)
    show "poll_loop env s = poll_loop env s'" using step s'(1) by simp
    show "available s' = available s" using s'(2) s1(1) by simp
    show "probes s' = probes s + Suc k" using s'(3) s1(2) by simp
    show "sleeps s' = sleeps s + Suc k" using s'(4) s1(3) by simp
    show "waitedMs s' = waitedMs s + Suc k * pollIntervalMs" using s'(5) s1(4) by simp
    show "clockMs s + Suc k * pollIntervalMs \<le> clockMs s'" using s'(6) s1(5) by simp
  qed
qed

text \<open>When every probe fails the loop gives up after 301 probes and 602000 ms of waiting.\<close>

lemma poll_loop_all_fail:
  assumes "\<forall>i. \<not> succeeds (env i)"
  shows "\<not> available (poll_loop env poll_init) \<and> probes (poll_loop env poll_init) = 301
         \<and> sleeps (poll_loop env poll_init) = 301
         \<and> waitedMs (poll_loop env poll_init) = 602000"
proof -
  have "\<forall>i<301. \<not> succeeds (env (probes poll_init + i))" using assms by simp
  moreover have "waitedMs poll_init + 301 * pollIntervalMs \<le> maxWaitMs + pollIntervalMs"
    by (simp add: poll_init_def pollIntervalMs_def maxWaitMs_def)
  ultimately obtain s' where s': "poll_loop env poll_init = poll_loop env s'"
    "available s' = available poll_init" "probes s' = probes poll_init + 301"
    "sleeps s' = sleeps poll_init + 301"
    "waitedMs s' = waitedMs poll_init + 301 * pollIntervalMs"
    using poll_loop_failures [of 301 env poll_init] by blast
  from s'(5) have w: "waitedMs s' = 602000" by (simp add: poll_init_def pollIntervalMs_def)
  then have "\<not> waitedMs s' \<le> maxWaitMs" by (simp add: maxWaitMs_def)
  then have "poll_loop env s' = s'" by (rule poll_loop_timeout)
  with s' w show ?thesis by (simp add: poll_init_def)
qed

text \<open>
  Claim C1. If the probe fails on each of the first \<open>N\<close> attempts and succeeds on attempt
  \<open>N + 1\<close>, and \<open>N\<close> poll intervals do not exceed the maximum wait, the poller stops with
  \<open>available = true\<close> after exactly \<open>N + 1\<close> probes and \<open>N\<close> sleeps, having waited
  \<open>N * 2000\<close> ms, with at least that much time elapsed on the clock.
\<close>

theorem poll_succeeds_after_failures:
  assumes "N * pollIntervalMs \<le> maxWaitMs"
    and "\<forall>i<N. \<not> succeeds (env i)"
    and "succeeds (env N)"
  shows "available (poll_loop env poll_init)
         \<and> probes (poll_loop env poll_init) = N + 1
         \<and> sleeps (poll_loop env poll_init) = N
         \<and> waitedMs (poll_loop env poll_init) = N * pollIntervalMs
         \<and> N * pollIntervalMs \<le> clockMs (poll_loop env poll_init)"
proof -
  have "\<forall>i<N. \<not> succeeds (env (probes poll_init + i))"
    using assms(2) by (simp add: poll_init_def)
  moreover have "waitedMs poll_init + N * pollIntervalMs \<le> maxWaitMs + pollIntervalMs"
    using assms(1) by (simp add: poll_init_def)
  ultimately obtain s' where s': "poll_loop env poll_init = poll_loop env s'"
    "probes s' = probes poll_init + N" "sleeps s' = sleeps poll_init + N"
    "waitedMs s' = waitedMs poll_init + N * pollIntervalMs"
    "clockMs poll_init + N * pollIntervalMs \<le> clockMs s'"
    using poll_loop_failures [of N env poll_init] by blast
  have p: "probes s' = N" "sleeps s' = N" "waitedMs s' = N * pollIntervalMs"
    "N * pollIntervalMs \<le> clockMs s'"
    using s'(2-5) by (simp_all add: poll_init_def)
  have "waitedMs s' \<le> maxWaitMs" using p(3) assms(1) by simp
  moreover have "succeeds (env (probes s'))" using p(1) assms(3) by simp
  ultimately have "poll_loop env s' = fst (probe_step (env N) s')"
    using poll_loop_break [of s' env] p(1) by simp
  with s'(1) have r: "poll_loop env poll_init = fst (probe_step (env N) s')" by simp
  show ?thesis unfolding r using probe_step_success [OF assms(3), of s'] p by simp
qed

text \<open>The theorem at \<open>N = 2\<close>: two failures (a 404 and a transport error), then a 200.\<close>

theorem poll_succeeds_after_failures_witness:
  "available (poll_loop
     (\<lambda>i. if i = 0 then \<lparr>answer = Inr \<lparr>status = 404, reason = ''Not Found''\<rparr>,
                           fetchMs = 30, lateMs = 1\<rparr>
           else if i = 1 then \<lparr>answer = Inl (Error ''fetch failed''), fetchMs = 5, lateMs = 0\<rparr>
           else \<lparr>answer = Inr \<lparr>status = 200, reason = ''OK''\<rparr>, fetchMs = 40, lateMs = 0\<rparr>)
     poll_init)
   \<and> probes (poll_loop
     (\<lambda>i. if i = 0 then \<lparr>answer = Inr \<lparr>status = 404, reason = ''Not Found''\<rparr>,
                           fetchMs = 30, lateMs = 1\<rparr>
           else if i = 1 then \<lparr>answer = Inl (Error ''fetch failed''), fetchMs = 5, lateMs = 0\<rparr>
           else \<lparr>answer = Inr \<lparr>status = 200, reason = ''OK''\<rparr>, fetchMs = 40, lateMs = 0\<rparr>)
     poll_init) = 3"
  using poll_succeeds_after_failures [of 2
     "\<lambda>i. if i = 0 then \<lparr>answer = Inr \<lparr>status = 404, reason = ''Not Found''\<rparr>,
                           fetchMs = 30, lateMs = 1\<rparr>
           else if i = 1 then \<lparr>answer = Inl (Error ''fetch failed''), fetchMs = 5, lateMs = 0\<rparr>
           else \<lparr>answer = Inr \<lparr>status = 200, reason = ''OK''\<rparr>, fetchMs = 40, lateMs = 0\<rparr>"]
  by (simp add: succeeds_def ok_def pollIntervalMs_def maxWaitMs_def less_Suc_eq numeral_2_eq_2)

text \<open>
  Claim C2. If every probe fails, the loop ends (it is a total function) with
  \<open>available = false\<close>; the accumulated wait is at least the maximum wait of 600000 ms and
  exceeds it by no more than one poll interval of 2000 ms; at most 301 probes are made.
\<close>

theorem poll_times_out:
  assumes "\<forall>i. \<not> succeeds (env i)"
  shows "\<not> available (poll_loop env poll_init)
         \<and> maxWaitMs \<le> waitedMs (poll_loop env poll_init)
         \<and> waitedMs (poll_loop env poll_init) \<le> maxWaitMs + pollIntervalMs
         \<and> probes (poll_loop env poll_init) \<le> 301"
  using poll_loop_all_fail [OF assms] by (simp add: maxWaitMs_def pollIntervalMs_def)

text \<open>The theorem for a gateway that answers 404 to every probe.\<close>

theorem poll_times_out_witness:
  "\<not> available (poll_loop
        (\<lambda>i. \<lparr>answer = Inr \<lparr>status = 404, reason = ''Not Found''\<rparr>, fetchMs = 30, lateMs = 1\<rparr>)
        poll_init)
   \<and> waitedMs (poll_loop
        (\<lambda>i. \<lparr>answer = Inr \<lparr>status = 404, reason = ''Not Found''\<rparr>, fetchMs = 30, lateMs = 1\<rparr>)
        poll_init) \<le> 602000"
  using poll_times_out [of
        "\<lambda>i. \<lparr>answer = Inr \<lparr>status = 404, reason = ''Not Found''\<rparr>, fetchMs = 30, lateMs = 1\<rparr>"]
  by (simp add: succeeds_def ok_def maxWaitMs_def pollIntervalMs_def)


lemma probe_step_break: "snd (probe_step a s) \<Longrightarrow> available (fst (probe_step a s))"
  by (auto simp: probe_step_def Let_def split: sum.splits if_splits)

text \<open>The loop ends without success only once the accumulated wait exceeds the maximum.\<close>

lemma poll_loop_unavailable:
  "\<not> available (poll_loop env s) \<Longrightarrow> maxWaitMs < waitedMs (poll_loop env s)"
proof (induction env s rule: poll_loop.induct)
  case (1 env s)
  show ?case
  proof (cases "waitedMs s \<le> maxWaitMs")
    case False
    then show ?thesis by (simp add: poll_loop.simps [of env s])
  next
    case True
    obtain s' b where p: "probe_step (env (probes s)) s = (s', b)"
      by (cases "probe_step (env (probes s)) s")
    show ?thesis
    proof (cases b)
      case True
      with p have "available s'" using probe_step_break [of "env (probes s)" s] by simp
      moreover have "poll_loop env s = s'"
        using p True \<open>waitedMs s \<le> maxWaitMs\<close> by (simp add: poll_loop.simps [of env s])
      ultimately show ?thesis using "1.prems" by simp
    next
      case False
      have eq: "poll_loop env s = poll_loop env (sleep_step (env (probes s)) s')"
        using p False True by (simp add: poll_loop.simps [of env s])
      have "\<not> available (poll_loop env (sleep_step (env (probes s)) s'))"
        using "1.prems" eq by simp
      then have "maxWaitMs < waitedMs (poll_loop env (sleep_step (env (probes s)) s'))"
        using "1.IH" [OF True p [symmetric]] False by simp
      then show ?thesis using eq by simp
    qed
  qed
qed

text \<open>
  When every probe throws the same error, the status reported at the timeout is what the
  handler records for it.
\<close>

lemma poll_loop_all_throw:
  assumes "\<forall>i. answer (env i) = Inl e"
  shows "statusText (poll_loop env s)
         = (if waitedMs s \<le> maxWaitMs then or_else (message e) ''fetch error''
            else statusText s)"
  using assms
proof (induction env s rule: poll_loop.induct)
  case (1 env s)
  show ?case
  proof (cases "waitedMs s \<le> maxWaitMs")
    case False
    then show ?thesis by (simp add: poll_loop.simps [of env s])
  next
    case True
    let ?a = "env (probes s)"
    obtain s' b where p: "probe_step ?a s = (s', b)" by (cases "probe_step ?a s")
    have a: "answer ?a = Inl e" using "1.prems" by simp
    from p a have b: "b = False" and st: "statusText s' = or_else (message e) ''fetch error''"
      by (auto simp: probe_step_def Let_def)
    have eq: "poll_loop env s = poll_loop env (sleep_step ?a s')"
      using p b True by (simp add: poll_loop.simps [of env s])
    have "statusText (poll_loop env (sleep_step ?a s'))
          = (if waitedMs (sleep_step ?a s') \<le> maxWaitMs
             then or_else (message e) ''fetch error'' else statusText (sleep_step ?a s'))"
      using "1.IH" [OF True p [symmetric]] b "1.prems" by simp
    also have "\<dots> = or_else (message e) ''fetch error''"
      using st by (simp add: sleep_step_def)
    finally show ?thesis using eq True by simp
  qed
qed

text \<open>
  Claim C3, as amended. A transport error thrown by the HEAD fetch is not fatal: from a
  state within the maximum wait, the loop records the error's message as the last observed
  status, or the text "fetch error" when the thrown value has no message or an empty one,
  sleeps one poll interval and carries on with the next iteration; and whatever the
  probes answer, the loop ends without success only when the accumulated wait exceeds the
  maximum wait.
\<close>

theorem poll_transport_error_not_fatal:
  assumes "waitedMs s \<le> maxWaitMs" and "answer (env (probes s)) = Inl e"
  shows "poll_loop env s
         = poll_loop env
             (s\<lparr>probes := probes s + 1,
                clockMs := clockMs s + fetchMs (env (probes s)) + pollIntervalMs
                           + lateMs (env (probes s)),
                statusText := (case message e of
                                 None \<Rightarrow> ''fetch error''
                               | Some m \<Rightarrow> if m = [] then ''fetch error'' else m),
                sleeps := sleeps s + 1,
                waitedMs := waitedMs s + pollIntervalMs\<rparr>)
         \<and> (\<not> available (poll_loop env s) \<longrightarrow> maxWaitMs < waitedMs (poll_loop env s))"
proof
  have "\<not> succeeds (env (probes s))" using assms(2) by (simp add: succeeds_def)
  with assms(1) have "poll_loop env s
      = poll_loop env (sleep_step (env (probes s)) (fst (probe_step (env (probes s)) s)))"
    by (rule poll_loop_continue)
  also have "sleep_step (env (probes s)) (fst (probe_step (env (probes s)) s))
      = s\<lparr>probes := probes s + 1,
          clockMs := clockMs s + fetchMs (env (probes s)) + pollIntervalMs
                     + lateMs (env (probes s)),
          statusText := (case message e of
                           None \<Rightarrow> ''fetch error''
                         | Some m \<Rightarrow> if m = [] then ''fetch error'' else m),
          sleeps := sleeps s + 1,
          waitedMs := waitedMs s + pollIntervalMs\<rparr>"
    using assms(2) by (simp add: sleep_step_def probe_step_def or_else_def)
  finally show "poll_loop env s
         = poll_loop env
             (s\<lparr>probes := probes s + 1,
                clockMs := clockMs s + fetchMs (env (probes s)) + pollIntervalMs
                           + lateMs (env (probes s)),
                statusText := (case message e of
                                 None \<Rightarrow> ''fetch error''
                               | Some m \<Rightarrow> if m = [] then ''fetch error'' else m),
                sleeps := sleeps s + 1,
                waitedMs := waitedMs s + pollIntervalMs\<rparr>)" .
  show "\<not> available (poll_loop env s) \<longrightarrow> maxWaitMs < waitedMs (poll_loop env s)"
    using poll_loop_unavailable by blast
qed

text \<open>
  The theorem at the last iteration (600000 ms already waited) of a run whose probes all
  throw "fetch failed": the error is recorded, the loop sleeps once more and ends there,
  unavailable, with 602000 ms waited.
\<close>

theorem poll_transport_error_not_fatal_witness:
  "poll_loop (\<lambda>i. \<lparr>answer = Inl (Error ''fetch failed''), fetchMs = 5, lateMs = 0\<rparr>)
     (poll_init\<lparr>waitedMs := 600000, probes := 300, sleeps := 300\<rparr>)
   = poll_init\<lparr>waitedMs := 602000, probes := 301, sleeps := 301, clockMs := 2005,
               statusText := ''fetch failed''\<rparr>"
proof -
  let ?env = "\<lambda>i::nat. \<lparr>answer = Inl (Error ''fetch failed''), fetchMs = 5, lateMs = 0\<rparr>"
  let ?s = "poll_init\<lparr>waitedMs := 600000, probes := 300, sleeps := 300\<rparr>"
  let ?t = "poll_init\<lparr>waitedMs := 602000, probes := 301, sleeps := 301, clockMs := 2005,
               statusText := ''fetch failed''\<rparr>"
  have "waitedMs ?s \<le> maxWaitMs" by (simp add: poll_init_def maxWaitMs_def)
  moreover have "answer (?env (probes ?s)) = Inl (Error ''fetch failed'')" by simp
  ultimately have "poll_loop ?env ?s = poll_loop ?env ?t"
    using poll_transport_error_not_fatal [of ?s ?env "Error ''fetch failed''"]
    by (simp add: poll_init_def pollIntervalMs_def Error_def)
  moreover have "\<not> waitedMs ?t \<le> maxWaitMs" by (simp add: poll_init_def maxWaitMs_def)
  then have "poll_loop ?env ?t = ?t" by (rule poll_loop_timeout)
  ultimately show ?thesis by simp
qed

text \<open>
  Claim C3 as stated says that the error message is what is recorded. It is not when the
  message is empty: in a run whose probes all throw an error with the empty message, the
  last observed status is "fetch error".
\<close>

theorem poll_empty_message_counterexample:
  "message (Exn (Some []) ''Error'') = Some []
   \<and> statusText (poll_loop
        (\<lambda>i. \<lparr>answer = Inl (Exn (Some []) ''Error''), fetchMs = 5, lateMs = 0\<rparr>) poll_init)
     = ''fetch error''"
proof -
  have "statusText (poll_loop
        (\<lambda>i. \<lparr>answer = Inl (Exn (Some []) ''Error''), fetchMs = 5, lateMs = 0\<rparr>) poll_init)
     = (if waitedMs poll_init \<le> maxWaitMs
        then or_else (message (Exn (Some []) ''Error'')) ''fetch error''
        else statusText poll_init)"
    by (rule poll_loop_all_throw) simp
  then show ?thesis by (simp add: poll_init_def or_else_def)
qed

section \<open>Properties of the upload test\<close>

subsection \<open>Sequencing\<close>

lemma before_console_log: "before (console_log l) k w = k (w\<lparr>stdout := stdout w @ [l]\<rparr>)"
  by (simp add: before_def and_then_def console_log_def)

lemma before_console_error: "before (console_error l) k w = k (w\<lparr>stderr := stderr w @ [l]\<rparr>)"
  by (simp add: before_def and_then_def console_error_def)

lemma before_ret: "before (ret ()) k = k"
  by (simp add: before_def and_then_def ret_def)

lemma before_attempt_call:
  "before (attempt_call r) k w = (case r of None \<Rightarrow> k w | Some e \<Rightarrow> (Throw e, w))"
  by (simp add: before_def and_then_def attempt_call_def ret_def throw_def split: option.splits)

lemma and_then_await:
  "and_then (await r) f w = (case r of Inr x \<Rightarrow> f x w | Inl e \<Rightarrow> (Throw e, w))"
  by (simp add: and_then_def await_def ret_def throw_def split: sum.splits)

lemma before_writeFile:
  "before (writeFile r name content) k w
   = (case r of None \<Rightarrow> k (w\<lparr>files := files w @ [(name, content)]\<rparr>)
              | Some e \<Rightarrow> (Throw e, w))"
  by (simp add: before_def and_then_def writeFile_def throw_def split: option.splits)

lemma before_process_exit: "before m (process_exit c) w = (case m w of
    (Return x, w') \<Rightarrow> (Exit c, w') | (Throw e, w') \<Rightarrow> (Throw e, w') | (Exit d, w') \<Rightarrow> (Exit d, w'))"
  by (simp add: before_def and_then_def process_exit_def)

lemma upload_all_result:
  "upload_all rs w = (case find (\<lambda>r. r \<noteq> None) rs of
                        None \<Rightarrow> (Return (), w)
                      | Some r \<Rightarrow> (Throw (the r), w))"
  by (induction rs) (auto simp: ret_def before_attempt_call split: option.splits)

lemma before_upload_all:
  "before (upload_all rs) k w = (case find (\<lambda>r. r \<noteq> None) rs of
                        None \<Rightarrow> k w
                      | Some r \<Rightarrow> (Throw (the r), w))"
  by (simp add: before_def and_then_def upload_all_result split: option.splits)

lemma console_log_apply: "console_log l w = (Return (), w\<lparr>stdout := stdout w @ [l]\<rparr>)"
  by (simp add: console_log_def)

lemma console_error_apply: "console_error l w = (Return (), w\<lparr>stderr := stderr w @ [l]\<rparr>)"
  by (simp add: console_error_def)

lemma ret_apply: "ret x w = (Return x, w)"
  by (simp add: ret_def)

lemma process_exit_apply: "process_exit c w = (Exit c, w)"
  by (simp add: process_exit_def)

lemma throw_apply: "throw e w = (Throw e, w)"
  by (simp add: throw_def)

lemmas seq_simps = before_console_log before_console_error before_ret before_attempt_call
  and_then_await before_writeFile before_upload_all console_log_apply console_error_apply
  ret_apply process_exit_apply throw_apply

lemma randomBytes_length: "randomBytes rnd n = Inr buf \<Longrightarrow> n = Num (int (length buf))"
  by (auto simp: randomBytes_def split: number.splits if_splits)

lemma prepare_payload:
  assumes "prepare env w = (Return p, w')"
  shows "randomBytes (entropy env) (sizeBytes p) = Inr (payload p)"
  using assms
  by (auto simp: prepare_def Let_def seq_simps
      split: if_splits sum.splits option.splits)

lemma prepare_world:
  assumes "prepare env w = (Return p, w')"
  shows "files w' = files w \<and> stderr w' = stderr w"
  using assms
  by (auto simp: prepare_def Let_def seq_simps
      split: if_splits sum.splits option.splits)

subsection \<open>The integrity check\<close>

lemma equals_iff: "equals a b \<longleftrightarrow> a = b"
  by (induction a b rule: equals.induct) auto

lemma same_iff:
  assumes "randomBytes rnd n = Inr buf"
  shows "same dlBuf n buf
         \<longleftrightarrow> length dlBuf = length buf \<and> (\<forall>i<length dlBuf. dlBuf ! i = buf ! i)"
proof -
  from assms have "n = Num (int (length buf))" by (rule randomBytes_length)
  then show ?thesis
    by (auto simp: same_def strict_eq_len_def equals_iff list_eq_iff_nth_eq)
qed

lemma and_then_Return: "m w = (Return x, w') \<Longrightarrow> and_then m f w = f x w'"
  by (simp add: and_then_def)

lemma wait_for_gateway_result:
  "wait_for_gateway env w
   = (Return (poll_loop (heads env) poll_init),
      w\<lparr>stdout := stdout w @ availability_lines (poll_loop (heads env) poll_init)\<rparr>)"
  by (simp add: wait_for_gateway_def Let_def seq_simps availability_lines_def)

lemma upload_body_prepared:
  assumes "prepare env world0 = (Return p, w)"
  shows "upload_body env world0
         = download_and_report env p (poll_loop (heads env) poll_init)
             (w\<lparr>stdout := stdout w @ availability_lines (poll_loop (heads env) poll_init)\<rparr>)"
proof -
  have "upload_body env world0
        = and_then (wait_for_gateway env)
            (\<lambda>st. download_and_report env p st) w"
    unfolding upload_body_def using assms by (rule and_then_Return)
  also have "\<dots> = download_and_report env p (poll_loop (heads env) poll_init)
             (w\<lparr>stdout := stdout w @ availability_lines (poll_loop (heads env) poll_init)\<rparr>)"
    using wait_for_gateway_result by (rule and_then_Return)
  finally show ?thesis .
qed

text \<open>The run of the script when the gateway serves the data and the download succeeds.\<close>

lemma upload_main_downloaded:
  assumes "prepare env world0 = (Return p, w)"
    and "available (poll_loop (heads env) poll_init)"
    and "download env = Inr (resp, Inr dlBuf)" and "ok resp"
    and "writeResults env = None"
  shows "exitCode (upload_main env) = 0"
    and "\<exists>rep. files (final (upload_main env))
                 = [(''arweave-test-'' @ txId env @ ''.json'', UploadResults rep)]
           \<and> integrityCheck rep = pass_fail (same dlBuf (sizeBytes p) (payload p))"
    and "Text (''Integrity check: '' @ pass_fail (same dlBuf (sizeBytes p) (payload p)))
         \<in> set (stdout (final (upload_main env)))"
proof -
  have f: "files w = []" using prepare_world [OF assms(1)] by (simp add: world0_def)
  show "exitCode (upload_main env) = 0"
    using assms(2-5)
    by (simp add: upload_main_def run_def try_catch_def upload_body_prepared [OF assms(1)]
        download_and_report_def Let_def seq_simps)
  show "\<exists>rep. files (final (upload_main env))
                 = [(''arweave-test-'' @ txId env @ ''.json'', UploadResults rep)]
           \<and> integrityCheck rep = pass_fail (same dlBuf (sizeBytes p) (payload p))"
    using assms(2-5) f
    by (simp add: upload_main_def run_def try_catch_def upload_body_prepared [OF assms(1)]
        download_and_report_def Let_def seq_simps)
  show "Text (''Integrity check: '' @ pass_fail (same dlBuf (sizeBytes p) (payload p)))
         \<in> set (stdout (final (upload_main env)))"
    using assms(2-5)
    by (simp add: upload_main_def run_def try_catch_def upload_body_prepared [OF assms(1)]
        download_and_report_def Let_def seq_simps)
qed

text \<open>
  Claim C4. In a run of the upload test that reaches the report, the integrity check
  written to the report (and printed) is "PASS" if and only if the downloaded buffer has
  the length of the generated payload and the same byte at every position; otherwise it
  is "FAIL", and there is no third value.
\<close>

theorem integrity_check_pass_iff:
  assumes "prepare env world0 = (Return p, w)"
    and "available (poll_loop (heads env) poll_init)"
    and "download env = Inr (resp, Inr dlBuf)" and "ok resp"
    and "writeResults env = None"
  shows "\<exists>rep. files (final (upload_main env))
                 = [(''arweave-test-'' @ txId env @ ''.json'', UploadResults rep)]
           \<and> Text (''Integrity check: '' @ integrityCheck rep)
               \<in> set (stdout (final (upload_main env)))
           \<and> (integrityCheck rep = ''PASS''
                \<longleftrightarrow> length dlBuf = length (payload p)
                    \<and> (\<forall>i<length dlBuf. dlBuf ! i = payload p ! i))
           \<and> (integrityCheck rep \<noteq> ''PASS'' \<longrightarrow> integrityCheck rep = ''FAIL'')"
proof -
  from upload_main_downloaded(2) [OF assms] obtain rep where
    rep: "files (final (upload_main env))
          = [(''arweave-test-'' @ txId env @ ''.json'', UploadResults rep)]"
      "integrityCheck rep = pass_fail (same dlBuf (sizeBytes p) (payload p))"
    by blast
  have s: "same dlBuf (sizeBytes p) (payload p)
           \<longleftrightarrow> length dlBuf = length (payload p)
               \<and> (\<forall>i<length dlBuf. dlBuf ! i = payload p ! i)"
    using prepare_payload [OF assms(1)] by (rule same_iff)
  show ?thesis
  proof (intro exI [of _ rep] conjI)
    show "files (final (upload_main env))
          = [(''arweave-test-'' @ txId env @ ''.json'', UploadResults rep)]" by (rule rep(1))
    show "Text (''Integrity check: '' @ integrityCheck rep)
          \<in> set (stdout (final (upload_main env)))"
      using upload_main_downloaded(3) [OF assms] rep(2) by simp
    show "integrityCheck rep = ''PASS''
          \<longleftrightarrow> length dlBuf = length (payload p)
              \<and> (\<forall>i<length dlBuf. dlBuf ! i = payload p ! i)"
      unfolding rep(2) s [symmetric] by (simp add: pass_fail_def)
    show "integrityCheck rep \<noteq> ''PASS'' \<longrightarrow> integrityCheck rep = ''FAIL''"
      unfolding rep(2) by (simp add: pass_fail_def)
  qed
qed

lemma demo_prepare:
  "\<exists>w. prepare demo_upload world0
       = (Return \<lparr>sizeArg = ''2B'', gatewayUrl = ''https://arweave.net'', sizeBytes = Num 2,
                  payload = [7, 8]\<rparr>, w)"
proof -
  have size: "parseSize ''2B'' = Inr (Num 2)"
    by (simp add: parseSize_def match_size_def is_digit_def optional_def is_KMG_def
        is_B_def to_upper_def toUpperCase_def parseInt_def is_space_def digits_val_def
        digit_val_def to_number_def round_double_def)
  have bytes: "randomBytes (\<lambda>i. of_nat i + 7) (Num 2) = Inr [7, 8]"
    by (simp add: randomBytes_def eval_nat_numeral)
  show ?thesis
    by (simp add: prepare_def demo_upload_def arg_def falsy_def or_else_def Let_def seq_simps
        size bytes del: upload_all.simps)
qed

lemma poll_first_probe:
  assumes "succeeds (env 0)"
  shows "available (poll_loop env poll_init)"
proof -
  have "poll_loop env poll_init = fst (probe_step (env (probes poll_init)) poll_init)"
    using assms by (intro poll_loop_break) (simp_all add: poll_init_def)
  then show ?thesis using probe_step_success(2) [of "env 0" poll_init] assms
    by (simp add: poll_init_def)
qed

text \<open>The theorem at the example upload: the two bytes come back, the check is "PASS".\<close>

theorem integrity_check_pass_iff_witness:
  "\<exists>rep. files (final (upload_main demo_upload)) = [(''arweave-test-tx1.json'', UploadResults rep)]
         \<and> integrityCheck rep = ''PASS''"
proof -
  obtain w where prep: "prepare demo_upload world0
       = (Return \<lparr>sizeArg = ''2B'', gatewayUrl = ''https://arweave.net'', sizeBytes = Num 2,
                  payload = [7, 8]\<rparr>, w)"
    using demo_prepare by blast
  have av: "available (poll_loop (heads demo_upload) poll_init)"
    by (rule poll_first_probe) (simp add: demo_upload_def succeeds_def ok_def)
  have dl: "download demo_upload = Inr (\<lparr>status = 200, reason = ''OK''\<rparr>, Inr [7, 8])"
    by (simp add: demo_upload_def)
  have okr: "ok \<lparr>status = 200, reason = ''OK''\<rparr>" by (simp add: ok_def)
  have wr: "writeResults demo_upload = None" by (simp add: demo_upload_def)
  from integrity_check_pass_iff [OF prep av dl okr wr] obtain rep where
    rep: "files (final (upload_main demo_upload))
          = [(''arweave-test-'' @ txId demo_upload @ ''.json'', UploadResults rep)]"
      "integrityCheck rep = ''PASS''
       \<longleftrightarrow> length [7, 8 :: byte] = length [7, 8 :: byte]
           \<and> (\<forall>i<length [7, 8 :: byte]. [7, 8 :: byte] ! i = [7, 8 :: byte] ! i)"
    by auto
  from rep(2) have "integrityCheck rep = ''PASS''" by simp
  with rep(1) show ?thesis by (auto simp: demo_upload_def)
qed

subsection \<open>The early exit\<close>

text \<open>
  Claim C8. If the poller ends with \<open>available = false\<close>, the upload test prints the two
  availability lines and the line that it stops, and exits with code 0: nothing is
  written to standard error, no file is written, and the answers that the environment
  holds for the download and the report are never looked at.
\<close>

theorem unavailable_exits_zero:
  assumes "prepare env world0 = (Return p, w)"
    and "\<not> available (poll_loop (heads env) poll_init)"
  shows "exitCode (upload_main env) = 0
         \<and> stdout (final (upload_main env))
             = stdout w @ availability_lines (poll_loop (heads env) poll_init)
               @ [Text ''Stopping before download (content not yet served by the gateway).'']
         \<and> stderr (final (upload_main env)) = []
         \<and> files (final (upload_main env)) = []
         \<and> upload_main (env\<lparr>download := d, downloadMs := ms, writeResults := wr\<rparr>)
             = upload_main env"
proof -
  let ?st = "poll_loop (heads env) poll_init"
  let ?w2 = "w\<lparr>stdout := stdout w @ availability_lines ?st\<rparr>"
  let ?env' = "env\<lparr>download := d, downloadMs := ms, writeResults := wr\<rparr>"
  have quiet: "files w = []" "stderr w = []"
    using prepare_world [OF assms(1)] by (simp_all add: world0_def)
  have stop: "\<And>e. heads e = heads env \<Longrightarrow> download_and_report e p ?st ?w2
      = (Exit 0, ?w2\<lparr>stdout := stdout ?w2
           @ [Text ''Stopping before download (content not yet served by the gateway).'']\<rparr>)"
    using assms(2) by (simp add: download_and_report_def seq_simps before_process_exit)
  have body: "upload_body env world0 = download_and_report env p ?st ?w2"
    using assms(1) by (rule upload_body_prepared)
  have "prepare ?env' world0 = prepare env world0"
    by (simp add: prepare_def Let_def cong: if_cong)
  then have "prepare ?env' world0 = (Return p, w)" using assms(1) by simp
  then have "upload_body ?env' world0
             = download_and_report ?env' p (poll_loop (heads ?env') poll_init)
                 (w\<lparr>stdout := stdout w
                      @ availability_lines (poll_loop (heads ?env') poll_init)\<rparr>)"
    by (rule upload_body_prepared)
  then have body': "upload_body ?env' world0 = download_and_report ?env' p ?st ?w2" by simp
  have main: "upload_main env = \<lparr>exitCode = 0, final = ?w2\<lparr>stdout := stdout ?w2
           @ [Text ''Stopping before download (content not yet served by the gateway).'']\<rparr>\<rparr>"
    using stop [of env] body by (simp add: upload_main_def run_def try_catch_def)
  have main': "upload_main ?env' = \<lparr>exitCode = 0, final = ?w2\<lparr>stdout := stdout ?w2
           @ [Text ''Stopping before download (content not yet served by the gateway).'']\<rparr>\<rparr>"
    using stop [of ?env'] body' by (simp add: upload_main_def run_def try_catch_def)
  show ?thesis unfolding main' unfolding main using quiet by simp
qed

text \<open>The theorem at the example upload with a gateway that answers 404 to every probe.\<close>

theorem unavailable_exits_zero_witness:
  "exitCode (upload_main (demo_upload
      \<lparr>heads := (\<lambda>i. \<lparr>answer = Inr \<lparr>status = 404, reason = ''Not Found''\<rparr>, fetchMs = 40,
                       lateMs = 0\<rparr>)\<rparr>)) = 0
   \<and> files (final (upload_main (demo_upload
      \<lparr>heads := (\<lambda>i. \<lparr>answer = Inr \<lparr>status = 404, reason = ''Not Found''\<rparr>, fetchMs = 40,
                       lateMs = 0\<rparr>)\<rparr>))) = []"
proof -
  let ?env = "demo_upload
      \<lparr>heads := (\<lambda>i. \<lparr>answer = Inr \<lparr>status = 404, reason = ''Not Found''\<rparr>, fetchMs = 40,
                       lateMs = 0\<rparr>)\<rparr>"
  obtain w where "prepare demo_upload world0
       = (Return \<lparr>sizeArg = ''2B'', gatewayUrl = ''https://arweave.net'', sizeBytes = Num 2,
                  payload = [7, 8]\<rparr>, w)"
    using demo_prepare by blast
  moreover have "prepare ?env world0 = prepare demo_upload world0"
    by (simp add: prepare_def Let_def cong: if_cong)
  ultimately have prep: "prepare ?env world0
       = (Return \<lparr>sizeArg = ''2B'', gatewayUrl = ''https://arweave.net'', sizeBytes = Num 2,
                  payload = [7, 8]\<rparr>, w)" by simp
  have "\<forall>i. \<not> succeeds (heads ?env i)" by (simp add: succeeds_def ok_def)
  then have un: "\<not> available (poll_loop (heads ?env) poll_init)"
    using poll_loop_all_fail by blast
  show ?thesis using unavailable_exits_zero [OF prep un] by simp
qed

section \<open>Properties of the read test\<close>

subsection \<open>Progress lines of the streaming download\<close>

lemma downloaded_after_Cons:
  "downloaded_after (v # vs) (Suc k) = length v + downloaded_after vs k"
  by (simp add: downloaded_after_def)

lemma downloaded_after_0: "downloaded_after (v # vs) 0 = length v"
  by (simp add: downloaded_after_def)

lemma map_upt_Suc_shift: "map f [0..<Suc n] = f 0 # map (\<lambda>k. f (Suc k)) [0..<n]"
  by (simp add: map_upt_Suc del: upt_Suc)

lemma read_loop_stream:
  "read_loop E (stream_of vs) s w
   = (Return \<lparr>chunks = chunks s @ vs,
              chunkSizes = chunkSizes s @ map length vs,
              downloadedBytes = downloadedBytes s + sum_list (map length vs)\<rparr>,
      w\<lparr>stdout := stdout w @
           concat (map (\<lambda>k. if gt_zero E
                                \<and> (downloadedBytes s + downloaded_after vs k) mod 10485760
                                    < length (vs ! k)
                             then [progress_line (downloadedBytes s + downloaded_after vs k) E]
                             else [])
                       [0..<length vs])\<rparr>)"
proof (induction vs arbitrary: s w)
  case Nil
  show ?case by (simp add: stream_of_def and_then_def ret_def)
next
  case (Cons v vs)
  let ?s1 = "s\<lparr>chunks := chunks s @ [v], chunkSizes := chunkSizes s @ [length v],
               downloadedBytes := downloadedBytes s + length v\<rparr>"
  let ?out = "if gt_zero E \<and> (downloadedBytes s + length v) mod 10485760 < length v
              then [progress_line (downloadedBytes s + length v) E] else []"
  have step: "on_chunk E v s w = (Return ?s1, w\<lparr>stdout := stdout w @ ?out\<rparr>)"
    by (simp add: on_chunk_def Let_def before_def and_then_def console_log_def ret_def)
  have "read_loop E (stream_of (v # vs)) s w
        = read_loop E (stream_of vs) ?s1 (w\<lparr>stdout := stdout w @ ?out\<rparr>)"
    using step by (simp add: stream_of_def and_then_def)
  also note Cons.IH [of ?s1 "w\<lparr>stdout := stdout w @ ?out\<rparr>"]
  finally show ?case
    by (simp add: map_upt_Suc_shift downloaded_after_Cons downloaded_after_0 add.assoc
        del: upt_Suc cong: if_cong)
qed

text \<open>
  Claim C7. While the read test streams the download, the progress lines written are, in
  order, exactly one line for each received chunk \<open>k\<close> for which the expected size from the
  metadata is strictly positive and the bytes downloaded so far, that chunk included,
  taken modulo 10485760, are strictly fewer than the length of that chunk; no line is
  written for any other chunk.
\<close>

theorem progress_line_iff:
  "read_loop expectedSize (stream_of vs) dl_init w
   = (Return \<lparr>chunks = vs, chunkSizes = map length vs,
              downloadedBytes = sum_list (map length vs)\<rparr>,
      w\<lparr>stdout := stdout w @
           [progress_line (downloaded_after vs k) expectedSize.
              k \<leftarrow> [0..<length vs],
              gt_zero expectedSize
              \<and> downloaded_after vs k mod 10485760 < length (vs ! k)]\<rparr>)"
  using read_loop_stream [of expectedSize vs dl_init w]
  by (simp add: dl_init_def cong: if_cong)

section \<open>The top-level error handling\<close>

subsection \<open>The upload test\<close>

lemma prepare_throw_quiet:
  assumes "prepare env w = (Throw e, w')"
  shows "files w' = files w \<and> stderr w' = stderr w"
  using assms
  by (auto simp: prepare_def Let_def seq_simps before_process_exit
      split: if_splits sum.splits option.splits)

lemma download_and_report_throw_quiet:
  assumes "download_and_report env p st w = (Throw e, w')"
  shows "files w' = files w \<and> stderr w' = stderr w"
  using assms
  by (auto simp: download_and_report_def Let_def seq_simps before_process_exit
      split: if_splits sum.splits option.splits)

text \<open>An exception that leaves the body of the upload test has written nothing to
  standard error and no file.\<close>

lemma upload_body_throw_quiet:
  assumes "upload_body env world0 = (Throw e, w)"
  shows "files w = [] \<and> stderr w = []"
proof (cases "prepare env world0")
  case (Pair r w1)
  show ?thesis
  proof (cases r)
    case (Return p)
    with Pair have prep: "prepare env world0 = (Return p, w1)" by simp
    then have "download_and_report env p (poll_loop (heads env) poll_init)
                 (w1\<lparr>stdout := stdout w1 @ availability_lines (poll_loop (heads env) poll_init)\<rparr>)
               = (Throw e, w)"
      using assms upload_body_prepared by simp
    then have "files w = files w1 \<and> stderr w = stderr w1"
      using download_and_report_throw_quiet by fastforce
    then show ?thesis using prepare_world [OF prep] by (simp add: world0_def)
  next
    case (Throw e')
    with Pair assms have "e' = e" "w1 = w" by (simp_all add: upload_body_def and_then_def)
    with Pair Throw show ?thesis using prepare_throw_quiet [of env world0 e w]
      by (simp add: world0_def)
  next
    case (Exit c)
    with Pair assms show ?thesis by (simp add: upload_body_def and_then_def)
  qed
qed

lemma upload_catch_result:
  "upload_catch env err w
   = (Exit 1,
      w\<lparr>stderr := stderr w
           @ [Err ''Error:'' err,
              (case writeErrorReport env of
                 None \<Rightarrow> Text (''Error details saved to: arweave-test-error-''
                                @ decimal (dateNow env) @ ''.json'')
               | Some writeErr \<Rightarrow> Err ''Failed to save error to file:'' writeErr)],
        files := files w
           @ (case writeErrorReport env of
                None \<Rightarrow> [(''arweave-test-error-'' @ decimal (dateNow env) @ ''.json'',
                           UploadError \<lparr>errorTimestamp = isoTime env,
                                        errorMessage = or_else (message err) (text_of err)\<rparr>)]
              | Some writeErr \<Rightarrow> [])\<rparr>)"
  by (cases "writeErrorReport env")
     (simp_all add: upload_catch_def Let_def seq_simps before_process_exit try_catch_def)

lemma upload_main_throw:
  assumes "upload_body env world0 = (Throw err, w)"
  shows "exitCode (upload_main env) = 1"
    and "stderr (final (upload_main env))
         = [Err ''Error:'' err,
            (case writeErrorReport env of
               None \<Rightarrow> Text (''Error details saved to: arweave-test-error-''
                              @ decimal (dateNow env) @ ''.json'')
             | Some writeErr \<Rightarrow> Err ''Failed to save error to file:'' writeErr)]"
    and "files (final (upload_main env))
         = (case writeErrorReport env of
              None \<Rightarrow> [(''arweave-test-error-'' @ decimal (dateNow env) @ ''.json'',
                         UploadError \<lparr>errorTimestamp = isoTime env,
                                      errorMessage = or_else (message err) (text_of err)\<rparr>)]
            | Some writeErr \<Rightarrow> [])"
  using assms upload_body_throw_quiet [OF assms]
  by (simp_all add: upload_main_def run_def try_catch_def upload_catch_result)


subsection \<open>The phases of the read test\<close>

lemma metadata_phase_result:
  "case metadata_phase env w of
     (r, w') \<Rightarrow> (\<exists>tags. r = Return (declared_size env, tags))
               \<and> files w' = files w \<and> stderr w' = stderr w
               \<and> filter is_size_verification (stdout w')
                   = filter is_size_verification (stdout w)"
  by (auto simp: metadata_phase_def metadata_failed_def declared_size_def content_type_line_def
      seq_simps Let_def split: sum.splits prod.splits option.splits)

lemma head_phase_result:
  "case head_phase env w of
     (r, w') \<Rightarrow> (\<forall>e. r \<noteq> Throw e) \<and> files w' = files w
               \<and> (\<forall>x. r = Return x \<longrightarrow> stderr w' = stderr w)
               \<and> filter is_size_verification (stdout w')
                   = filter is_size_verification (stdout w)"
  by (auto simp: head_phase_def seq_simps before_process_exit Let_def split: sum.splits)

lemma read_prelude_result:
  "case read_prelude env w of
     (r, w') \<Rightarrow> (\<forall>e. r \<noteq> Throw e) \<and> files w' = files w
               \<and> filter is_size_verification (stdout w')
                   = filter is_size_verification (stdout w)
               \<and> (\<forall>c. r = Return c \<longrightarrow>
                      stderr w' = stderr w \<and> ctxExpectedSize c = declared_size env
                      \<and> ctxTxid c = or_else (arg (readArgv env) 0) [])"
proof (cases "falsy (arg (readArgv env) 0)")
  case True
  then show ?thesis by (simp add: read_prelude_def seq_simps before_process_exit)
next
  case False
  let ?w1 = "w\<lparr>stdout := stdout w
      @ [Text (''Reading transaction: '' @ or_else (arg (readArgv env) 0) []),
         Text (''Gateway: '' @ or_else (arg (readArgv env) 1) ''https://arweave.net''),
         Text (''Raw data URL: ''
               @ strip_slash (or_else (arg (readArgv env) 1) ''https://arweave.net'')
               @ ''/raw/'' @ or_else (arg (readArgv env) 0) []),
         Text (''Transaction URL: ''
               @ strip_slash (or_else (arg (readArgv env) 1) ''https://arweave.net'')
               @ ''/'' @ or_else (arg (readArgv env) 0) []),
         Text []]\<rparr>"
  obtain r1 w2 where m: "metadata_phase env ?w1 = (r1, w2)" by (cases "metadata_phase env ?w1")
  with metadata_phase_result [where env = env and w = ?w1] obtain tags where
    r1: "r1 = Return (declared_size env, tags)" and
    w2: "files w2 = files w" "stderr w2 = stderr w"
      "filter is_size_verification (stdout w2) = filter is_size_verification (stdout w)"
    by auto
  obtain r2 w3 where h: "head_phase env w2 = (r2, w3)" by (cases "head_phase env w2")
  with head_phase_result [where env = env and w = w2] have
    r2: "\<forall>e. r2 \<noteq> Throw e" "\<forall>x. r2 = Return x \<longrightarrow> stderr w3 = stderr w2" and
    w3: "files w3 = files w2"
      "filter is_size_verification (stdout w3) = filter is_size_verification (stdout w2)"
    by auto
  show ?thesis
  proof (cases r2)
    case (Return x)
    obtain cl ct where x: "x = (cl, ct)" by (cases x)
    show ?thesis
      using False m r1 h Return x w2 w3 r2
      by (simp add: read_prelude_def Let_def seq_simps and_then_def)
  next
    case (Throw e)
    with r2 show ?thesis by simp
  next
    case (Exit c)
    show ?thesis
      using False m r1 h Exit w2 w3
      by (simp add: read_prelude_def Let_def seq_simps and_then_def)
  qed
qed

lemma on_chunk_result:
  "case on_chunk E v s w of
     (r, w') \<Rightarrow> (\<exists>s'. r = Return s') \<and> files w' = files w \<and> stderr w' = stderr w
               \<and> filter is_size_verification (stdout w')
                   = filter is_size_verification (stdout w)"
  by (simp add: on_chunk_def Let_def seq_simps progress_line_def)

lemma read_loop_result:
  "read_loop E rs s w = (r, w') \<Longrightarrow>
     files w' = files w \<and> stderr w' = stderr w
     \<and> filter is_size_verification (stdout w') = filter is_size_verification (stdout w)"
proof (induction E rs s arbitrary: w rule: read_loop.induct)
  case (1 E s)
  then show ?case by (simp add: ret_def)
next
  case (2 E e rs s)
  then show ?case by (simp add: throw_def)
next
  case (3 E rd rs s)
  show ?case
  proof (cases "chunk rd")
    case None
    show ?thesis
    proof (cases "readerDone rd")
      case True
      with None "3.prems" show ?thesis by (simp add: and_then_def ret_def)
    next
      case False
      with None "3.prems" have "read_loop E rs s w = (r, w')" by (simp add: and_then_def ret_def)
      with "3.IH" [OF False] show ?thesis by blast
    qed
  next
    case (Some v)
    obtain s' w1 where oc: "on_chunk E v s w = (Return s', w1)"
      and w1: "files w1 = files w" "stderr w1 = stderr w"
        "filter is_size_verification (stdout w1) = filter is_size_verification (stdout w)"
      using on_chunk_result [where E = E and v = v and s = s and w = w] by (cases "on_chunk E v s w") auto
    show ?thesis
    proof (cases "readerDone rd")
      case True
      with Some oc "3.prems" have "w' = w1" by (simp add: and_then_def ret_def)
      with w1 show ?thesis by simp
    next
      case False
      with Some oc "3.prems" have "read_loop E rs s' w1 = (r, w')" by (simp add: and_then_def)
      with "3.IH" [OF False] w1 show ?thesis by metis
    qed
  qed
qed


text \<open>
  What the body of the download \<^verbatim>\<open>try\<close> can have done when it ends, however it ends: an
  exception leaves standard error and the files untouched; the only file it ever adds is
  the report, whose \<open>sizeMatch\<close> is decided by \<^verbatim>\<open>expectedSize > 0\<close>; and without a
  positive expected size it prints no size-verification line.
\<close>

lemma and_then_Throw: "m w = (Throw e, w') \<Longrightarrow> and_then m f w = (Throw e, w')"
  by (simp add: and_then_def)

lemma and_then_Exit: "m w = (Exit c, w') \<Longrightarrow> and_then m f w = (Exit c, w')"
  by (simp add: and_then_def)

lemma before_before: "before (before a b) k = before a (before b k)"
  by (auto simp: before_def and_then_def fun_eq_iff split: prod.splits result.splits)

lemma download_body_result:
  "case download_body env txid gw E tags cl ct w of
     (r, w') \<Rightarrow>
       (\<forall>e. r = Throw e \<longrightarrow> files w' = files w \<and> stderr w' = stderr w)
       \<and> (files w' = files w
          \<or> (\<exists>name rep. files w' = files w @ [(name, ReadResults rep)]
               \<and> expectedSizeField rep = E
               \<and> sizeMatch rep = (if gt_zero E then Some (strict_eq_len E (actualSize rep))
                                   else None)))
       \<and> (\<not> gt_zero E \<longrightarrow> filter is_size_verification (stdout w')
                              = filter is_size_verification (stdout w))
       \<and> (\<forall>x. r = Return x \<longrightarrow> files w' \<noteq> files w)"
proof (cases "getFetch env")
  case (Inl e)
  then show ?thesis by (simp add: download_body_def seq_simps)
next
  case (Inr resp)
  show ?thesis
  proof (cases "ok (getResp resp)")
    case False
    with Inr show ?thesis
      by (simp add: download_body_def seq_simps before_process_exit)
  next
    case True
    obtain r1 w1 where rl: "read_loop E (reads resp) dl_init w = (r1, w1)"
      by (cases "read_loop E (reads resp) dl_init w")
    note q = read_loop_result [OF rl]
    show ?thesis
    proof (cases r1)
      case (Return s)
      note st = and_then_Return [where m = "read_loop E (reads resp) dl_init" and w = w,
          OF rl [unfolded Return]]
      show ?thesis
      proof (cases "writeReadResults env")
        case None
        with Inr True q show ?thesis
          by (simp add: download_body_def seq_simps st Let_def content_type_line_def
              before_before size_pass_line_def size_fail_line_def)
      next
        case (Some e)
        with Inr True q show ?thesis
          by (simp add: download_body_def seq_simps st Let_def content_type_line_def
              before_before size_pass_line_def size_fail_line_def)
      qed
    next
      case (Throw e)
      note st = and_then_Throw [where m = "read_loop E (reads resp) dl_init" and w = w,
          OF rl [unfolded Throw]]
      with Inr True q show ?thesis
        by (simp add: download_body_def seq_simps st)
    next
      case (Exit c)
      note st = and_then_Exit [where m = "read_loop E (reads resp) dl_init" and w = w,
          OF rl [unfolded Exit]]
      with Inr True q show ?thesis
        by (simp add: download_body_def seq_simps st)
    qed
  qed
qed

lemma download_catch_result:
  "download_catch env txid err w
   = (case writeReadError env of
        None \<Rightarrow>
          (Exit 1,
           w\<lparr>stderr := stderr w
                @ [Text (''Download error: '' @ template (message err)),
                   Text (''Error details saved to: arweave-read-error-'' @ txid @ ''-''
                         @ decimal (readDateNow env) @ ''.json'')],
             files := files w
                @ [(''arweave-read-error-'' @ txid @ ''-'' @ decimal (readDateNow env)
                    @ ''.json'',
                    ReadError \<lparr>readErrorTimestamp = readIsoTime env,
                               readErrorTxid = txid,
                               readErrorMessage = or_else (message err) (text_of err)\<rparr>)]\<rparr>)
      | Some writeErr \<Rightarrow>
          (Throw writeErr,
           w\<lparr>stderr := stderr w @ [Text (''Download error: '' @ template (message err))]\<rparr>))"
  by (cases "writeReadError env")
     (simp_all add: download_catch_def Let_def seq_simps before_process_exit)


lemma download_body_returns:
  assumes "getFetch env = Inr resp" and "ok (getResp resp)" and "reads resp = stream_of vs"
    and "writeReadResults env = None"
  shows "\<exists>w'. download_body env txid gw E tags cl ct w = (Return (), w')"
proof -
  note st = and_then_Return [where m = "read_loop E (stream_of vs) dl_init" and w = w,
      OF read_loop_stream]
  show ?thesis
    using assms
    by (simp add: download_body_def seq_simps st Let_def content_type_line_def before_before)
qed

lemma read_prelude_returns:
  assumes "\<not> falsy (arg (readArgv env) 0)" and "headFetch env = Inr h" and "ok (headResp h)"
  shows "\<exists>c w1. read_prelude env w = (Return c, w1)"
proof -
  let ?w1 = "w\<lparr>stdout := stdout w
      @ [Text (''Reading transaction: '' @ or_else (arg (readArgv env) 0) []),
         Text (''Gateway: '' @ or_else (arg (readArgv env) 1) ''https://arweave.net''),
         Text (''Raw data URL: ''
               @ strip_slash (or_else (arg (readArgv env) 1) ''https://arweave.net'')
               @ ''/raw/'' @ or_else (arg (readArgv env) 0) []),
         Text (''Transaction URL: ''
               @ strip_slash (or_else (arg (readArgv env) 1) ''https://arweave.net'')
               @ ''/'' @ or_else (arg (readArgv env) 0) []),
         Text []]\<rparr>"
  obtain r1 w2 where m: "metadata_phase env ?w1 = (r1, w2)" by (cases "metadata_phase env ?w1")
  with metadata_phase_result [where env = env and w = ?w1] obtain tags where
    r1: "r1 = Return (declared_size env, tags)" by auto
  have "\<exists>x w3. head_phase env w2 = (Return x, w3)"
    using assms(2,3) by (simp add: head_phase_def seq_simps Let_def)
  then obtain cl ct w3 where h: "head_phase env w2 = (Return (cl, ct), w3)" by auto
  show ?thesis
    using assms(1) m r1 h by (simp add: read_prelude_def Let_def seq_simps and_then_def)
qed

lemma read_body_downloading:
  assumes "read_prelude env world0 = (Return c, w1)"
  shows "read_body env world0
         = try_catch
             (download_body env (ctxTxid c) (ctxGateway c) (ctxExpectedSize c) (ctxTags c)
                (ctxContentLength c) (ctxContentType c))
             (download_catch env (ctxTxid c)) w1"
  unfolding read_body_def using assms by (rule and_then_Return)

subsection \<open>The read test\<close>

lemma read_main_throw:
  assumes "read_prelude env world0 = (Return c, w1)"
    and "download_body env (ctxTxid c) (ctxGateway c) (ctxExpectedSize c) (ctxTags c)
           (ctxContentLength c) (ctxContentType c) w1 = (Throw err, w2)"
  shows "exitCode (read_main env) = 1"
    and "stderr (final (read_main env))
         = [Text (''Download error: '' @ template (message err)),
            (case writeReadError env of
               None \<Rightarrow> Text (''Error details saved to: arweave-read-error-'' @ ctxTxid c
                              @ ''-'' @ decimal (readDateNow env) @ ''.json'')
             | Some writeErr \<Rightarrow> Err ''Fatal error:'' writeErr)]"
    and "files (final (read_main env))
         = (case writeReadError env of
              None \<Rightarrow> [(''arweave-read-error-'' @ ctxTxid c @ ''-''
                          @ decimal (readDateNow env) @ ''.json'',
                         ReadError \<lparr>readErrorTimestamp = readIsoTime env,
                                    readErrorTxid = ctxTxid c,
                                    readErrorMessage = or_else (message err) (text_of err)\<rparr>)]
            | Some writeErr \<Rightarrow> [])"
proof -
  have q1: "files w1 = []" "stderr w1 = []"
    using read_prelude_result [where env = env and w = world0] assms(1)
    by (simp_all add: world0_def)
  have q2: "files w2 = []" "stderr w2 = []"
    using download_body_result [where env = env and w = w1 and txid = "ctxTxid c"
        and gw = "ctxGateway c" and E = "ctxExpectedSize c" and tags = "ctxTags c"
        and cl = "ctxContentLength c" and ct = "ctxContentType c"] assms(2) q1
    by simp_all
  have body: "read_body env world0 = download_catch env (ctxTxid c) err w2"
    using read_body_downloading [OF assms(1)] assms(2) by (simp add: try_catch_def)
  show "exitCode (read_main env) = 1"
    unfolding read_main_def run_def try_catch_def body download_catch_result
    by (cases "writeReadError env")
       (simp_all add: read_catch_def seq_simps before_process_exit)
  show "stderr (final (read_main env))
         = [Text (''Download error: '' @ template (message err)),
            (case writeReadError env of
               None \<Rightarrow> Text (''Error details saved to: arweave-read-error-'' @ ctxTxid c
                              @ ''-'' @ decimal (readDateNow env) @ ''.json'')
             | Some writeErr \<Rightarrow> Err ''Fatal error:'' writeErr)]"
    unfolding read_main_def run_def try_catch_def body download_catch_result using q2
    by (cases "writeReadError env")
       (simp_all add: read_catch_def seq_simps before_process_exit)
  show "files (final (read_main env))
         = (case writeReadError env of
              None \<Rightarrow> [(''arweave-read-error-'' @ ctxTxid c @ ''-''
                          @ decimal (readDateNow env) @ ''.json'',
                         ReadError \<lparr>readErrorTimestamp = readIsoTime env,
                                    readErrorTxid = ctxTxid c,
                                    readErrorMessage = or_else (message err) (text_of err)\<rparr>)]
            | Some writeErr \<Rightarrow> [])"
    unfolding read_main_def run_def try_catch_def body download_catch_result using q2
    by (cases "writeReadError env")
       (simp_all add: read_catch_def seq_simps before_process_exit)
qed

text \<open>
  Before its download \<^verbatim>\<open>try\<close> the read test never throws: the only errors that reach
  its outer handler are failures to write the error report.
\<close>

lemma read_prelude_never_throws: "read_prelude env w \<noteq> (Throw e, w')"
  using read_prelude_result [where env = env and w = w] by auto

text \<open>
  Claim C9. An error that leaves the body of the upload test, or the download of the read
  test, is caught by that script's handler, logged once, and an error report holding the
  timestamp and the error message is written under a name built from the clock; the
  process exits with code 1. When writing the report fails, no file is written, the write
  error is logged in its place (by the inner handler in the upload test, by the outer
  handler in the read test), and the exit code is still 1.
\<close>

theorem top_level_errors_reported:
  assumes "upload_body uenv world0 = (Throw err, w)"
    and "read_prelude renv world0 = (Return c, w1)"
    and "download_body renv (ctxTxid c) (ctxGateway c) (ctxExpectedSize c) (ctxTags c)
           (ctxContentLength c) (ctxContentType c) w1 = (Throw err', w2)"
  shows "exitCode (upload_main uenv) = 1
       \<and> stderr (final (upload_main uenv))
           = [Err ''Error:'' err,
              (case writeErrorReport uenv of
                 None \<Rightarrow> Text (''Error details saved to: arweave-test-error-''
                                @ decimal (dateNow uenv) @ ''.json'')
               | Some writeErr \<Rightarrow> Err ''Failed to save error to file:'' writeErr)]
       \<and> files (final (upload_main uenv))
           = (case writeErrorReport uenv of
                None \<Rightarrow> [(''arweave-test-error-'' @ decimal (dateNow uenv) @ ''.json'',
                           UploadError \<lparr>errorTimestamp = isoTime uenv,
                                        errorMessage = or_else (message err) (text_of err)\<rparr>)]
              | Some writeErr \<Rightarrow> [])
       \<and> exitCode (read_main renv) = 1
       \<and> stderr (final (read_main renv))
           = [Text (''Download error: '' @ template (message err')),
              (case writeReadError renv of
                 None \<Rightarrow> Text (''Error details saved to: arweave-read-error-'' @ ctxTxid c
                                @ ''-'' @ decimal (readDateNow renv) @ ''.json'')
               | Some writeErr \<Rightarrow> Err ''Fatal error:'' writeErr)]
       \<and> files (final (read_main renv))
           = (case writeReadError renv of
                None \<Rightarrow> [(''arweave-read-error-'' @ ctxTxid c @ ''-''
                            @ decimal (readDateNow renv) @ ''.json'',
                           ReadError \<lparr>readErrorTimestamp = readIsoTime renv,
                                      readErrorTxid = ctxTxid c,
                                      readErrorMessage = or_else (message err') (text_of err')\<rparr>)]
              | Some writeErr \<Rightarrow> [])"
  using upload_main_throw [OF assms(1)] read_main_throw [OF assms(2,3)] by simp


text \<open>
  The theorem at an upload whose key file cannot be read (the error report is written)
  and at a read whose download fails while the error report cannot be written.
\<close>

theorem top_level_errors_reported_witness:
  "exitCode (upload_main (demo_upload\<lparr>loadKey := Some (Error ''ENOENT'')\<rparr>)) = 1
   \<and> files (final (upload_main (demo_upload\<lparr>loadKey := Some (Error ''ENOENT'')\<rparr>)))
       = [(''arweave-test-error-'' @ decimal 42 @ ''.json'',
           UploadError \<lparr>errorTimestamp = ''2025-01-01T00:00:00.000Z'',
                        errorMessage = ''ENOENT''\<rparr>)]
   \<and> exitCode (read_main (demo_read\<lparr>getFetch := Inl (Error ''fetch failed''),
                                     writeReadError := Some (Error ''EACCES'')\<rparr>)) = 1
   \<and> stderr (final (read_main (demo_read\<lparr>getFetch := Inl (Error ''fetch failed''),
                                           writeReadError := Some (Error ''EACCES'')\<rparr>)))
       = [Text ''Download error: fetch failed'', Err ''Fatal error:'' (Error ''EACCES'')]
   \<and> files (final (read_main (demo_read\<lparr>getFetch := Inl (Error ''fetch failed''),
                                          writeReadError := Some (Error ''EACCES'')\<rparr>))) = []"
proof -
  let ?u = "demo_upload\<lparr>loadKey := Some (Error ''ENOENT'')\<rparr>"
  let ?r = "demo_read\<lparr>getFetch := Inl (Error ''fetch failed''),
                        writeReadError := Some (Error ''EACCES'')\<rparr>"
  have size: "parseSize ''2B'' = Inr (Num 2)"
    by (simp add: parseSize_def match_size_def is_digit_def optional_def is_KMG_def
        is_B_def to_upper_def toUpperCase_def parseInt_def is_space_def digits_val_def
        digit_val_def to_number_def round_double_def)
  have "prepare ?u world0 = (Throw (Error ''ENOENT''), world0)"
    by (simp add: prepare_def demo_upload_def arg_def falsy_def or_else_def Let_def seq_simps
        size del: upload_all.simps)
  then have up: "upload_body ?u world0 = (Throw (Error ''ENOENT''), world0)"
    unfolding upload_body_def by (rule and_then_Throw)
  have "\<exists>c w1. read_prelude ?r world0 = (Return c, w1)"
    by (rule read_prelude_returns [where h = "\<lparr>headResp = \<lparr>status = 200, reason = ''OK''\<rparr>,
            contentLengthHeader = Some ''3'', contentTypeHeader = None\<rparr>"])
       (simp_all add: demo_read_def arg_def falsy_def ok_def)
  then obtain c w1 where pre: "read_prelude ?r world0 = (Return c, w1)" by blast
  have dl: "download_body ?r (ctxTxid c) (ctxGateway c) (ctxExpectedSize c) (ctxTags c)
              (ctxContentLength c) (ctxContentType c) w1 = (Throw (Error ''fetch failed''), w1)"
    by (simp add: download_body_def seq_simps)
  show ?thesis
    using top_level_errors_reported [OF up pre dl]
    by (simp add: demo_upload_def demo_read_def Error_def or_else_def template_def)
qed

subsection \<open>The size verification of the read test\<close>

text \<open>
  Where the run of the read test ends: its console output and its report, if any, are
  those left by the prelude (when it exits) or by the body of the download.
\<close>

lemma read_main_final:
  "(\<exists>k w. read_prelude env world0 = (Exit k, w)
          \<and> stdout (final (read_main env)) = stdout w
          \<and> files (final (read_main env)) = files w)
   \<or> (\<exists>c w1 r2 w2. read_prelude env world0 = (Return c, w1)
          \<and> download_body env (ctxTxid c) (ctxGateway c) (ctxExpectedSize c) (ctxTags c)
               (ctxContentLength c) (ctxContentType c) w1 = (r2, w2)
          \<and> stdout (final (read_main env)) = stdout w2
          \<and> (\<forall>name rep. (name, ReadResults rep) \<in> set (files (final (read_main env)))
                \<longrightarrow> (name, ReadResults rep) \<in> set (files w2)))"
proof -
  obtain r0 w1 where pre: "read_prelude env world0 = (r0, w1)"
    by (cases "read_prelude env world0")
  show ?thesis
  proof (cases r0)
    case (Exit k)
    with pre have "read_body env world0 = (Exit k, w1)"
      unfolding read_body_def by (intro and_then_Exit) simp
    then have "read_main env = \<lparr>exitCode = k, final = w1\<rparr>"
      by (simp add: read_main_def run_def try_catch_def)
    with pre Exit show ?thesis by simp
  next
    case (Throw e)
    with pre read_prelude_never_throws show ?thesis by blast
  next
    case (Return c)
    with pre have pre': "read_prelude env world0 = (Return c, w1)" by simp
    obtain r2 w2 where dl: "download_body env (ctxTxid c) (ctxGateway c) (ctxExpectedSize c)
        (ctxTags c) (ctxContentLength c) (ctxContentType c) w1 = (r2, w2)"
      by (cases "download_body env (ctxTxid c) (ctxGateway c) (ctxExpectedSize c)
        (ctxTags c) (ctxContentLength c) (ctxContentType c) w1")
    have body: "read_body env world0
                = try_catch
                    (download_body env (ctxTxid c) (ctxGateway c) (ctxExpectedSize c)
                       (ctxTags c) (ctxContentLength c) (ctxContentType c))
                    (download_catch env (ctxTxid c)) w1"
      using pre' by (rule read_body_downloading)
    have "stdout (final (read_main env)) = stdout w2
          \<and> (\<forall>name rep. (name, ReadResults rep) \<in> set (files (final (read_main env)))
                \<longrightarrow> (name, ReadResults rep) \<in> set (files w2))"
    proof (cases r2)
      case (Return x)
      with dl body show ?thesis by (simp add: read_main_def run_def try_catch_def)
    next
      case (Exit k)
      with dl body show ?thesis by (simp add: read_main_def run_def try_catch_def)
    next
      case (Throw err)
      with dl body have "read_body env world0 = download_catch env (ctxTxid c) err w2"
        by (simp add: try_catch_def)
      then show ?thesis
        unfolding read_main_def run_def try_catch_def download_catch_result
        by (cases "writeReadError env")
           (simp_all add: read_catch_def seq_simps before_process_exit)
    qed
    with pre' dl show ?thesis by blast
  qed
qed

text \<open>\<^verbatim>\<open>parseInt\<close> skips a leading no-break space, as it skips a space.\<close>

lemma parseInt_no_break_space: "parseInt [CHR 0xA0, CHR ''3''] = Num 3"
  by (simp add: parseInt_def is_space_def is_digit_def digits_val_def digit_val_def
      to_number_def round_double_def)

text \<open>A download that delivers as many bytes as a positive expected size.\<close>

lemma download_body_pass:
  assumes "getFetch env = Inr resp" and "ok (getResp resp)" and "reads resp = stream_of vs"
    and "writeReadResults env = None"
    and "gt_zero E" and "strict_eq_len E (length (concat vs))"
  shows "\<exists>w'. download_body env txid gw E tags cl ct w = (Return (), w')
           \<and> filter is_size_verification (stdout w')
               = filter is_size_verification (stdout w) @ [size_pass_line E]
           \<and> set (stdout w) \<subseteq> set (stdout w')
           \<and> size_matches (files w') = size_matches (files w) @ [Some True]"
proof -
  define w1 where "w1 = snd (read_loop E (stream_of vs) dl_init w)"
  let ?s1 = "\<lparr>chunks = chunks dl_init @ vs,
              chunkSizes = chunkSizes dl_init @ map length vs,
              downloadedBytes = downloadedBytes dl_init + sum_list (map length vs)\<rparr>"
  have rl: "read_loop E (stream_of vs) dl_init w = (Return ?s1, w1)"
    unfolding w1_def by (simp add: read_loop_stream)
  have sub: "set (stdout w) \<subseteq> set (stdout w1)"
    unfolding w1_def by (simp add: read_loop_stream)
  note q = read_loop_result [OF rl]
  note st = and_then_Return [where m = "read_loop E (stream_of vs) dl_init" and w = w, OF rl]
  have d: "chunks dl_init = []" by (simp add: dl_init_def)
  have sm: "size_matches (fs @ [(name, ReadResults rep)]) = size_matches fs @ [sizeMatch rep]"
    for fs name rep
    by (induction fs rule: size_matches.induct) simp_all
  show ?thesis
    using assms q sub
    by (auto simp: download_body_def seq_simps st Let_def content_type_line_def before_before
        size_pass_line_def d sm)
qed

lemma tag_error_prelude:
  "\<exists>c w1. read_prelude
       (demo_read\<lparr>metaFetch := Inr \<lparr>metaResp = \<lparr>status = 200, reason = ''OK''\<rparr>,
            metaJson = Inr \<lparr>data_size = Some ''3'',
                            tagList = [Inl (Error ''bad tag'')]\<rparr>\<rparr>\<rparr>) world0
       = (Return c, w1)
     \<and> ctxExpectedSize c = Num 3
     \<and> Text ''Metadata fetch failed: bad tag'' \<in> set (stdout w1)
     \<and> filter is_size_verification (stdout w1) = []
     \<and> files w1 = []"
proof -
  have three: "parseInt ''3'' = Num 3"
    by (simp add: parseInt_def is_space_def is_digit_def digits_val_def digit_val_def
        to_number_def round_double_def)
  show ?thesis
    by (simp add: read_prelude_def metadata_phase_def metadata_failed_def head_phase_def
        demo_read_def arg_def falsy_def or_else_def ok_def template_def Error_def three
        Let_def seq_simps and_then_def world0_def)
qed


text \<open>
  Claim C10 as stated fails when the metadata is fetched and parsed, declares 3 bytes, and
  one of its tags cannot be decoded: the handler of the metadata \<^verbatim>\<open>try\<close> prints
  "Metadata fetch failed", but \<^verbatim>\<open>expectedSize\<close> was assigned before the tags were read and
  stays 3, so the PASS line is printed and the report holds \<open>sizeMatch = true\<close>.
\<close>

theorem size_match_after_tag_error_counterexample:
  "Text ''Metadata fetch failed: bad tag''
     \<in> set (stdout (final (read_main
         (demo_read\<lparr>metaFetch := Inr \<lparr>metaResp = \<lparr>status = 200, reason = ''OK''\<rparr>,
            metaJson = Inr \<lparr>data_size = Some ''3'',
                            tagList = [Inl (Error ''bad tag'')]\<rparr>\<rparr>\<rparr>))))
   \<and> filter is_size_verification (stdout (final (read_main
         (demo_read\<lparr>metaFetch := Inr \<lparr>metaResp = \<lparr>status = 200, reason = ''OK''\<rparr>,
            metaJson = Inr \<lparr>data_size = Some ''3'',
                            tagList = [Inl (Error ''bad tag'')]\<rparr>\<rparr>\<rparr>))))
     = [size_pass_line (Num 3)]
   \<and> size_matches (files (final (read_main
         (demo_read\<lparr>metaFetch := Inr \<lparr>metaResp = \<lparr>status = 200, reason = ''OK''\<rparr>,
            metaJson = Inr \<lparr>data_size = Some ''3'',
                            tagList = [Inl (Error ''bad tag'')]\<rparr>\<rparr>\<rparr>))))
     = [Some True]"
proof -
  let ?r = "(demo_read\<lparr>metaFetch := Inr \<lparr>metaResp = \<lparr>status = 200, reason = ''OK''\<rparr>,
            metaJson = Inr \<lparr>data_size = Some ''3'',
                            tagList = [Inl (Error ''bad tag'')]\<rparr>\<rparr>\<rparr>)"
  obtain c w1 where pre: "read_prelude ?r world0 = (Return c, w1)"
    and c: "ctxExpectedSize c = Num 3"
    and w1: "Text ''Metadata fetch failed: bad tag'' \<in> set (stdout w1)"
      "filter is_size_verification (stdout w1) = []" "files w1 = []"
    using tag_error_prelude by blast
  have "\<exists>w2. download_body ?r (ctxTxid c) (ctxGateway c) (Num 3) (ctxTags c)
              (ctxContentLength c) (ctxContentType c) w1 = (Return (), w2)
           \<and> filter is_size_verification (stdout w2)
               = filter is_size_verification (stdout w1) @ [size_pass_line (Num 3)]
           \<and> set (stdout w1) \<subseteq> set (stdout w2)
           \<and> size_matches (files w2) = size_matches (files w1) @ [Some True]"
    by (rule download_body_pass [where vs = "[[1, 2, 3]]"
          and resp = "\<lparr>getResp = \<lparr>status = 200, reason = ''OK''\<rparr>,
                       reads = stream_of [[1, 2, 3]]\<rparr>"])
       (simp_all add: demo_read_def ok_def strict_eq_len_def)
  then obtain w2 where dl: "download_body ?r (ctxTxid c) (ctxGateway c) (ctxExpectedSize c)
              (ctxTags c) (ctxContentLength c) (ctxContentType c) w1 = (Return (), w2)"
    and w2: "filter is_size_verification (stdout w2) = [size_pass_line (Num 3)]"
      "set (stdout w1) \<subseteq> set (stdout w2)" "size_matches (files w2) = [Some True]"
    using c w1 by auto
  have "read_body ?r world0 = (Return (), w2)"
    using read_body_downloading [OF pre] dl by (simp add: try_catch_def)
  then have "final (read_main ?r) = w2"
    by (simp add: read_main_def run_def try_catch_def)
  with w1(1) w2 show ?thesis by auto
qed

text \<open>
  Claim C10, as amended. When the metadata request fails (the fetch throws, or reading
  the JSON body of an ok response throws), or answers with a status that is not ok, or
  declares a data size of 0, no size-verification line (PASS or FAIL) is printed by the
  read test and the \<open>sizeMatch\<close> field of any report it writes is null. In every run, a
  report with a boolean \<open>sizeMatch\<close> means that the expected size declared by the metadata
  (the report's \<open>expectedSize\<close>) is strictly positive. Nothing is said of an exception
  thrown in the metadata \<^verbatim>\<open>try\<close> after the size was read.
\<close>

theorem size_match_null_without_expected_size:
  "((metaFetch env = Inl e
      \<or> (\<exists>metaR. metaFetch env = Inr metaR \<and> \<not> ok (metaResp metaR))
      \<or> (\<exists>metaR e'. metaFetch env = Inr metaR \<and> ok (metaResp metaR)
            \<and> metaJson metaR = Inl e')
      \<or> (\<exists>metaR md. metaFetch env = Inr metaR \<and> ok (metaResp metaR)
            \<and> metaJson metaR = Inr md
            \<and> parseInt (or_else (data_size md) ''0'') = Num 0))
     \<longrightarrow> filter is_size_verification (stdout (final (read_main env))) = []
         \<and> (\<forall>name rep. (name, ReadResults rep) \<in> set (files (final (read_main env)))
               \<longrightarrow> sizeMatch rep = None))
   \<and> (\<forall>name rep b. (name, ReadResults rep) \<in> set (files (final (read_main env)))
          \<and> sizeMatch rep = Some b
        \<longrightarrow> gt_zero (declared_size env) \<and> expectedSizeField rep = declared_size env)"
proof -
  have zero: "metaFetch env = Inl e
      \<or> (\<exists>metaR. metaFetch env = Inr metaR \<and> \<not> ok (metaResp metaR))
      \<or> (\<exists>metaR e'. metaFetch env = Inr metaR \<and> ok (metaResp metaR)
            \<and> metaJson metaR = Inl e')
      \<or> (\<exists>metaR md. metaFetch env = Inr metaR \<and> ok (metaResp metaR)
            \<and> metaJson metaR = Inr md
            \<and> parseInt (or_else (data_size md) ''0'') = Num 0)
      \<Longrightarrow> \<not> gt_zero (declared_size env)"
    by (auto simp: declared_size_def)
  have files: "(name, ReadResults rep) \<in> set (files (final (read_main env)))
      \<Longrightarrow> expectedSizeField rep = declared_size env
          \<and> sizeMatch rep = (if gt_zero (declared_size env)
                              then Some (strict_eq_len (declared_size env) (actualSize rep))
                              else None)" for name rep
    using read_main_final [of env]
  proof (elim disjE exE conjE)
    fix k w
    assume "(name, ReadResults rep) \<in> set (files (final (read_main env)))"
      and "read_prelude env world0 = (Exit k, w)"
      and "files (final (read_main env)) = files w"
    then show ?thesis
      using read_prelude_result [where env = env and w = world0] by (simp add: world0_def)
  next
    fix c w1 r2 w2
    assume mem: "(name, ReadResults rep) \<in> set (files (final (read_main env)))"
      and pre: "read_prelude env world0 = (Return c, w1)"
      and dl: "download_body env (ctxTxid c) (ctxGateway c) (ctxExpectedSize c) (ctxTags c)
               (ctxContentLength c) (ctxContentType c) w1 = (r2, w2)"
      and sub: "\<forall>name rep. (name, ReadResults rep) \<in> set (files (final (read_main env)))
                \<longrightarrow> (name, ReadResults rep) \<in> set (files w2)"
    from pre have p: "files w1 = []" "ctxExpectedSize c = declared_size env"
      using read_prelude_result [where env = env and w = world0] by (simp_all add: world0_def)
    from mem sub have "(name, ReadResults rep) \<in> set (files w2)" by blast
    with p show ?thesis
      using download_body_result [where env = env and w = w1 and txid = "ctxTxid c"
        and gw = "ctxGateway c" and E = "ctxExpectedSize c" and tags = "ctxTags c"
        and cl = "ctxContentLength c" and ct = "ctxContentType c"] dl
      by auto
  qed
  have out: "\<not> gt_zero (declared_size env)
      \<Longrightarrow> filter is_size_verification (stdout (final (read_main env))) = []"
    using read_main_final [of env]
  proof (elim disjE exE conjE)
    fix k w
    assume "read_prelude env world0 = (Exit k, w)"
      and "stdout (final (read_main env)) = stdout w"
    then show ?thesis
      using read_prelude_result [where env = env and w = world0] by (simp add: world0_def)
  next
    fix c w1 r2 w2
    assume z: "\<not> gt_zero (declared_size env)"
      and pre: "read_prelude env world0 = (Return c, w1)"
      and dl: "download_body env (ctxTxid c) (ctxGateway c) (ctxExpectedSize c) (ctxTags c)
               (ctxContentLength c) (ctxContentType c) w1 = (r2, w2)"
      and eq: "stdout (final (read_main env)) = stdout w2"
    from pre have p: "filter is_size_verification (stdout w1) = []"
      "ctxExpectedSize c = declared_size env"
      using read_prelude_result [where env = env and w = world0] by (simp_all add: world0_def)
    with z eq show ?thesis
      using download_body_result [where env = env and w = w1 and txid = "ctxTxid c"
        and gw = "ctxGateway c" and E = "ctxExpectedSize c" and tags = "ctxTags c"
        and cl = "ctxContentLength c" and ct = "ctxContentType c"] dl
      by auto
  qed
  show ?thesis
  proof (intro conjI impI allI)
    assume h: "metaFetch env = Inl e
      \<or> (\<exists>metaR. metaFetch env = Inr metaR \<and> \<not> ok (metaResp metaR))
      \<or> (\<exists>metaR e'. metaFetch env = Inr metaR \<and> ok (metaResp metaR)
            \<and> metaJson metaR = Inl e')
      \<or> (\<exists>metaR md. metaFetch env = Inr metaR \<and> ok (metaResp metaR)
            \<and> metaJson metaR = Inr md
            \<and> parseInt (or_else (data_size md) ''0'') = Num 0)"
    then show "filter is_size_verification (stdout (final (read_main env))) = []"
      using zero out by blast
  next
    fix name rep
    assume h: "metaFetch env = Inl e
      \<or> (\<exists>metaR. metaFetch env = Inr metaR \<and> \<not> ok (metaResp metaR))
      \<or> (\<exists>metaR e'. metaFetch env = Inr metaR \<and> ok (metaResp metaR)
            \<and> metaJson metaR = Inl e')
      \<or> (\<exists>metaR md. metaFetch env = Inr metaR \<and> ok (metaResp metaR)
            \<and> metaJson metaR = Inr md
            \<and> parseInt (or_else (data_size md) ''0'') = Num 0)"
      and mem: "(name, ReadResults rep) \<in> set (files (final (read_main env)))"
    from zero [OF h] files [OF mem] show "sizeMatch rep = None" by simp
  next
    fix name rep b
    assume "(name, ReadResults rep) \<in> set (files (final (read_main env)))
            \<and> sizeMatch rep = Some b"
    with files [of name rep] show "gt_zero (declared_size env)"
      by (auto split: if_splits)
  next
    fix name rep b
    assume "(name, ReadResults rep) \<in> set (files (final (read_main env)))
            \<and> sizeMatch rep = Some b"
    with files [of name rep] show "expectedSizeField rep = declared_size env" by simp
  qed
qed

text \<open>
  The theorem at the example read when the metadata fetch throws: the report is written,
  with a null \<open>sizeMatch\<close>, and no size-verification line is printed.
\<close>

theorem size_match_null_without_expected_size_witness:
  "\<exists>name rep. files (final (read_main (demo_read\<lparr>metaFetch := Inl (Error ''fetch failed'')\<rparr>)))
                = [(name, ReadResults rep)]
       \<and> sizeMatch rep = None
       \<and> filter is_size_verification
           (stdout (final (read_main (demo_read\<lparr>metaFetch := Inl (Error ''fetch failed'')\<rparr>))))
         = []"
proof -
  let ?r = "demo_read\<lparr>metaFetch := Inl (Error ''fetch failed'')\<rparr>"
  have "\<exists>c w1. read_prelude ?r world0 = (Return c, w1)"
    by (rule read_prelude_returns [where h = "\<lparr>headResp = \<lparr>status = 200, reason = ''OK''\<rparr>,
            contentLengthHeader = Some ''3'', contentTypeHeader = None\<rparr>"])
       (simp_all add: demo_read_def arg_def falsy_def ok_def)
  then obtain c w1 where pre: "read_prelude ?r world0 = (Return c, w1)" by blast
  have "\<exists>w2. download_body ?r (ctxTxid c) (ctxGateway c) (ctxExpectedSize c) (ctxTags c)
              (ctxContentLength c) (ctxContentType c) w1 = (Return (), w2)"
    by (rule download_body_returns [where vs = "[[1, 2, 3]]" and resp = "\<lparr>getResp = \<lparr>status = 200, reason = ''OK''\<rparr>,
                     reads = stream_of [[1, 2, 3]]\<rparr>"])
       (simp_all add: demo_read_def ok_def)
  then obtain w2 where dl: "download_body ?r (ctxTxid c) (ctxGateway c) (ctxExpectedSize c)
              (ctxTags c) (ctxContentLength c) (ctxContentType c) w1 = (Return (), w2)"
    by blast
  have "read_body ?r world0 = (Return (), w2)"
    using read_body_downloading [OF pre] dl by (simp add: try_catch_def)
  then have fin: "final (read_main ?r) = w2"
    by (simp add: read_main_def run_def try_catch_def)
  have "files w1 = []"
    using read_prelude_result [where env = ?r and w = world0] pre by (simp add: world0_def)
  then obtain name rep where f: "files w2 = [(name, ReadResults rep)]"
    using download_body_result [where env = ?r and w = w1 and txid = "ctxTxid c"
        and gw = "ctxGateway c" and E = "ctxExpectedSize c" and tags = "ctxTags c"
        and cl = "ctxContentLength c" and ct = "ctxContentType c"] dl
    by auto
  have m: "metaFetch ?r = Inl (Error ''fetch failed'')" by simp
  from size_match_null_without_expected_size
    [where env = ?r and e = "Error ''fetch failed''"] m
  have "filter is_size_verification (stdout (final (read_main ?r))) = []"
    and "\<forall>name rep. (name, ReadResults rep) \<in> set (files (final (read_main ?r)))
           \<longrightarrow> sizeMatch rep = None"
    by blast+
  with fin f show ?thesis by simp
qed

end
